theory Spec2Isabelle
  imports Complex_Main
begin

section \<open>Algo-Trading-System: ledger store, backtesting engine, performance analyzer\<close>

text \<open>
  Conventions of the embedding.
  \<^item> A float64 is a \<^typ>\<open>real\<close>; rounding and overflow are not represented. Where the Python
    yields a value that is not finite (\<open>nan\<close>, \<open>inf\<close>) and the result is observable, the
    type \<open>npfloat\<close> below is used.
  \<^item> A NaN (missing) price of the input series is \<open>None\<close>.
  \<^item> A date is the key the engine writes (\<open>strftime('%Y-%m-%d')\<close>), represented by a day
    number: the order of the keys as text is the order of the days.
  \<^item> A number read from a row of the series is a numpy scalar when every column of the
    frame is numeric (\<open>iterrows\<close> then yields float64 rows) and a Python float when some
    column is not (the rows then have dtype object); the constructor argument
    \<open>initial_capital\<close> is a Python float. The two kinds differ on division by zero: Python
    floats raise \<open>ZeroDivisionError\<close>, numpy scalars give \<open>inf\<close> or \<open>nan\<close> and a warning. The
    kind is kept where it decides what the code does: in \<open>current_price\<close> and in
    \<open>last_portfolio_value\<close>.
  \<^item> The two divisions by zero the engine can meet are represented with what the code does
    there: the Buy at price 0 and the return percentage of the summary at capital 0. The
    analyzer is modelled for portfolio values that are not 0.
\<close>

subsection \<open>Values\<close>

type_synonym date = nat

datatype npfloat = Finite real | PosInf | NegInf | NaN

datatype scalar = PyFloat real | NpFloat64 real

fun scalar_val :: "scalar \<Rightarrow> real" where
  "scalar_val (PyFloat v) = v"
| "scalar_val (NpFloat64 v) = v"

text \<open>
  \<open>MissingColumns\<close> and \<open>NoPortfolioData\<close> are the two \<open>ValueError\<close>s the code raises;
  \<open>IntegrityError\<close> is \<open>sqlite3.IntegrityError\<close>, raised by the store.
\<close>

datatype error =
  MissingColumns "string list" | NoPortfolioData | ZeroDivisionError | IntegrityError
  | IndexError | TypeError

subsection \<open>Ledger store (\<open>DatabaseManager\<close>)\<close>

datatype trade_type = BUY | SELL

record trade =
  trade_date :: date
  trade_type :: trade_type
  price :: real
  shares :: real
  cash_change :: real
  portfolio_value :: real

record snapshot =
  snap_date :: date
  snap_cash :: real
  holdings_value :: real
  total_value :: real
  shares_held :: real
  snap_price :: real

record perf_row =
  pr_initial_capital :: real
  pr_final_portfolio_value :: real
  pr_total_return :: real
  pr_total_trades :: nat
  pr_winning_trades :: nat
  pr_losing_trades :: nat
  pr_win_rate :: real
  pr_max_drawdown :: real
  pr_sharpe_ratio :: real

text \<open>
  The three tables. \<open>trades\<close> is in insertion order (its key is an autoincrement id);
  \<open>portfolio_history\<close> has the date as primary key.
\<close>

record database =
  trades :: "trade list"
  portfolio_history :: "snapshot list"
  performance_metrics :: "perf_row list"

definition clear_data :: "database \<Rightarrow> database" where
  "clear_data db = db\<lparr>trades := [], portfolio_history := [], performance_metrics := []\<rparr>"

definition log_trade :: "trade \<Rightarrow> database \<Rightarrow> database" where
  "log_trade t db = db\<lparr>trades := trades db @ [t]\<rparr>"

text \<open>\<open>INSERT OR REPLACE\<close>: a row with the same date is removed, the new row is inserted.\<close>

definition log_portfolio_status :: "snapshot \<Rightarrow> database \<Rightarrow> database" where
  "log_portfolio_status s db =
     db\<lparr>portfolio_history :=
          filter (\<lambda>x. snap_date x \<noteq> snap_date s) (portfolio_history db) @ [s]\<rparr>"

definition log_performance_metrics :: "perf_row \<Rightarrow> database \<Rightarrow> database" where
  "log_performance_metrics m db = db\<lparr>performance_metrics := performance_metrics db @ [m]\<rparr>"

text \<open>\<open>ORDER BY date\<close>; rows with equal keys stay in insertion order.\<close>

definition get_portfolio_history :: "database \<Rightarrow> snapshot list" where
  "get_portfolio_history db = sort_key snap_date (portfolio_history db)"

definition get_trades :: "database \<Rightarrow> trade list" where
  "get_trades db = sort_key trade_date (trades db)"

subsection \<open>Signal series\<close>

text \<open>
  One row of \<open>signals_df\<close>. \<open>indicators\<close> holds the other columns; a column that is absent
  from the frame or NaN in this row is \<open>None\<close> (the default exit treats both alike).
\<close>

record row =
  row_date :: date
  row_price :: "real option"
  row_signal :: "real option"
  indicators :: "string \<Rightarrow> real option"

text \<open>
  \<open>float64_rows\<close> says whether every column of the frame is numeric, that is, whether the
  values read from its rows are numpy scalars (otherwise they are Python floats).
\<close>

record dataframe =
  columns :: "string list"
  float64_rows :: bool
  rows :: "row list"

definition price_scalar :: "bool \<Rightarrow> real \<Rightarrow> scalar" where
  "price_scalar np p = (if np then NpFloat64 p else PyFloat p)"

subsection \<open>Backtesting engine\<close>

record engine =
  initial_capital :: real
  cash :: real
  position_shares :: real
  last_portfolio_value :: scalar
  db_manager :: database
  strategy :: "(real \<Rightarrow> real \<Rightarrow> row \<Rightarrow> bool) option"
  current_date :: "date option"
  current_price :: "scalar option"
  current_row :: "row option"
  trades_executed :: nat
  winning_trades :: nat
  losing_trades :: nat
  entry_price :: real
  evaluated_divisions :: "(real \<times> real) list"

text \<open>
  \<open>evaluated_divisions\<close> is not an attribute of the class: it is a history variable that
  records the operands of every division \<open>self.cash / self.current_price\<close> the engine
  evaluates, so that statements about which divisions happen can be made.
\<close>

text \<open>\<open>__init__\<close>; the store is the content of the database file, which may hold earlier data.\<close>

definition init_engine ::
  "real \<Rightarrow> database \<Rightarrow> (real \<Rightarrow> real \<Rightarrow> row \<Rightarrow> bool) option \<Rightarrow> engine" where
  "init_engine ic db strat =
     \<lparr>initial_capital = ic, cash = ic, position_shares = 0,
      last_portfolio_value = PyFloat ic, db_manager = db, strategy = strat,
      current_date = None, current_price = Some (PyFloat 0), current_row = None,
      trades_executed = 0, winning_trades = 0, losing_trades = 0, entry_price = 0,
      evaluated_divisions = []\<rparr>"

text \<open>
  The methods below read \<open>self.current_price\<close> and \<open>self.current_date\<close>. They are
  called from the loop only, after it has set both and checked the price for NaN; the
  \<open>None\<close> branches are never taken and leave the engine as it is.

  A method that raises returns \<open>Inl\<close> with the error and the engine as the exception
  leaves it.

  \<open>_execute_buy\<close> at price 0 (with cash to spend) divides by zero.
  \<^item> With a Python float price the division raises \<open>ZeroDivisionError\<close>; no attribute has
    been assigned.
  \<^item> With a numpy price the quotient is \<open>inf\<close> and \<open>cash_spent\<close> is \<open>nan\<close>. The attributes are
    assigned (\<open>position_shares = inf\<close>, \<open>cash = 0\<close>, \<open>entry_price = 0\<close>), then \<open>log_trade\<close>
    binds \<open>nan\<close> to a \<open>NOT NULL\<close> column and raises \<open>sqlite3.IntegrityError\<close>; the store is
    unchanged. A \<^typ>\<open>real\<close> cannot hold \<open>inf\<close>: in the engine returned with this error
    \<open>position_shares\<close> keeps the value it had, the other attributes and the store are as
    the code leaves them.
\<close>

definition execute_buy :: "engine \<Rightarrow> (error \<times> engine) + engine" where
  "execute_buy e =
     (if cash e \<le> 0 then Inr e
      else case (current_price e, current_date e) of
        (Some sp, Some d) \<Rightarrow>
          let p = scalar_val sp;
              e0 = e\<lparr>evaluated_divisions := evaluated_divisions e @ [(cash e, p)]\<rparr>
          in if p = 0
             then (case sp of
                     PyFloat v \<Rightarrow> Inl (ZeroDivisionError, e0)
                   | NpFloat64 v \<Rightarrow> Inl (IntegrityError, e0\<lparr>cash := 0, entry_price := p\<rparr>))
             else
               let shares_to_buy = cash e / p;
                   cash_spent = shares_to_buy * p;
                   e1 = e0\<lparr>position_shares := shares_to_buy, cash := 0, entry_price := p\<rparr>;
                   pv = cash e1 + position_shares e1 * p;
                   e2 = e1\<lparr>db_manager := log_trade
                          \<lparr>trade_date = d, trade_type = BUY, price = p,
                           shares = shares_to_buy, cash_change = - cash_spent,
                           portfolio_value = pv\<rparr> (db_manager e1)\<rparr>
               in Inr (e2\<lparr>trades_executed := trades_executed e2 + 1\<rparr>)
      | _ \<Rightarrow> Inr e)"

definition execute_sell :: "engine \<Rightarrow> engine" where
  "execute_sell e =
     (if position_shares e \<le> 0 then e
      else case (current_price e, current_date e) of
        (Some sp, Some d) \<Rightarrow>
          let p = scalar_val sp;
              cash_received = position_shares e * p;
              shares_sold = position_shares e;
              e1 = (if p > entry_price e then e\<lparr>winning_trades := winning_trades e + 1\<rparr>
                    else e\<lparr>losing_trades := losing_trades e + 1\<rparr>);
              e2 = e1\<lparr>cash := cash e1 + cash_received, position_shares := 0\<rparr>;
              pv = cash e2 + position_shares e2 * p;
              e3 = e2\<lparr>db_manager := log_trade
                     \<lparr>trade_date = d, trade_type = SELL, price = p,
                      shares = shares_sold, cash_change = cash_received,
                      portfolio_value = pv\<rparr> (db_manager e2)\<rparr>
          in e3\<lparr>trades_executed := trades_executed e3 + 1\<rparr>
      | _ \<Rightarrow> e)"

definition check_exit_conditions :: "row \<Rightarrow> engine \<Rightarrow> engine" where
  "check_exit_conditions row_data e =
     (case current_price e of
        None \<Rightarrow> e
      | Some sp \<Rightarrow>
          let should_exit =
                (case strategy e of
                   Some get_exit_condition \<Rightarrow>
                     get_exit_condition (scalar_val sp) (entry_price e) row_data
                 | None \<Rightarrow>
                     (case indicators row_data ''middle_band'' of
                        Some middle_band \<Rightarrow> scalar_val sp \<ge> middle_band
                      | None \<Rightarrow> False))
          in if should_exit then execute_sell e else e)"

text \<open>
  \<open>cash + shares * price\<close> is a numpy scalar when the price is one. With a Python float
  price it is a Python float: cash and shares are then Python floats too, since a run
  starts them from \<open>initial_capital\<close> and \<open>0.0\<close> and all prices of a frame are of one kind.
\<close>

definition same_kind :: "scalar \<Rightarrow> real \<Rightarrow> scalar" where
  "same_kind sp v = (case sp of PyFloat u \<Rightarrow> PyFloat v | NpFloat64 u \<Rightarrow> NpFloat64 v)"

definition update_portfolio_status :: "engine \<Rightarrow> engine" where
  "update_portfolio_status e =
     (case (current_price e, current_date e) of
        (Some sp, Some d) \<Rightarrow>
          let p = scalar_val sp;
              current_holdings_value = position_shares e * p;
              total_portfolio_value = cash e + current_holdings_value
          in e\<lparr>db_manager := log_portfolio_status
                  \<lparr>snap_date = d, snap_cash = cash e,
                   holdings_value = current_holdings_value,
                   total_value = total_portfolio_value,
                   shares_held = position_shares e, snap_price = p\<rparr> (db_manager e),
               last_portfolio_value := same_kind sp total_portfolio_value\<rparr>
      | _ \<Rightarrow> e)"

text \<open>Steps 4 and 5 of the loop body: the exit check when holding, else the entry check.\<close>

definition trade_step :: "row \<Rightarrow> engine \<Rightarrow> (error \<times> engine) + engine" where
  "trade_step r e =
     (if position_shares e > 0 then Inr (check_exit_conditions r e)
      else if row_signal r = Some 1 then execute_buy e
      else Inr e)"

text \<open>The three assignments at the head of the loop body.\<close>

definition set_current :: "bool \<Rightarrow> row \<Rightarrow> engine \<Rightarrow> engine" where
  "set_current np r e =
     e\<lparr>current_date := Some (row_date r),
       current_price := map_option (price_scalar np) (row_price r),
       current_row := Some r\<rparr>"

text \<open>
  The body of the main loop, for one row of \<open>signals_df.iloc[1:]\<close>; \<open>np\<close> is
  \<open>float64_rows\<close> of the frame. An exception leaves the loop.
\<close>

definition process_row :: "bool \<Rightarrow> row \<Rightarrow> engine \<Rightarrow> (error \<times> engine) + engine" where
  "process_row np r e =
     (case row_price r of
        None \<Rightarrow> Inr (set_current np r e)
      | Some p \<Rightarrow>
          (case trade_step r (set_current np r e) of
             Inl raised \<Rightarrow> Inl raised
           | Inr e2 \<Rightarrow> Inr (update_portfolio_status e2)))"

fun backtest_loop :: "bool \<Rightarrow> row list \<Rightarrow> engine \<Rightarrow> (error \<times> engine) + engine" where
  "backtest_loop np [] e = Inr e"
| "backtest_loop np (r # rs) e =
     (case process_row np r e of
        Inl raised \<Rightarrow> Inl raised
      | Inr e2 \<Rightarrow> backtest_loop np rs e2)"

record summary =
  sum_initial_capital :: real
  sum_final_portfolio_value :: real
  sum_total_return :: npfloat
  sum_total_trades :: nat
  sum_winning_trades :: nat
  sum_losing_trades :: nat
  sum_win_rate :: real
  sum_profit_loss :: real

text \<open>
  \<open>(final - initial) / initial\<close>: with \<open>initial_capital = 0\<close>, a Python float numerator
  raises \<open>ZeroDivisionError\<close>, a numpy numerator gives \<open>nan\<close> or an infinity (and a warning).
\<close>

definition return_pct :: "scalar \<Rightarrow> real \<Rightarrow> error + npfloat" where
  "return_pct final ic =
     (if ic \<noteq> 0 then Inr (Finite ((scalar_val final - ic) / ic * 100))
      else case final of
        PyFloat v \<Rightarrow> Inl ZeroDivisionError
      | NpFloat64 v \<Rightarrow> Inr (if v > 0 then PosInf else if v < 0 then NegInf else NaN))"

definition generate_summary :: "engine \<Rightarrow> error + summary" where
  "generate_summary e =
     (let final_portfolio_value = last_portfolio_value e
      in case return_pct final_portfolio_value (initial_capital e) of
           Inl err \<Rightarrow> Inl err
         | Inr total_return \<Rightarrow>
             Inr \<lparr>sum_initial_capital = initial_capital e,
                  sum_final_portfolio_value = scalar_val final_portfolio_value,
                  sum_total_return = total_return,
                  sum_total_trades = trades_executed e,
                  sum_winning_trades = winning_trades e,
                  sum_losing_trades = losing_trades e,
                  sum_win_rate =
                    (if trades_executed e > 0
                     then real (winning_trades e) / real (max (trades_executed e) 1) * 100
                     else 0),
                  sum_profit_loss = scalar_val final_portfolio_value - initial_capital e\<rparr>)"

definition missing_columns :: "dataframe \<Rightarrow> string list" where
  "missing_columns df = filter (\<lambda>col. col \<notin> set (columns df)) [''price'', ''signal'']"

text \<open>Clearing the store and resetting the portfolio, the first statements of \<open>run_backtest\<close>.\<close>

definition reset_run :: "engine \<Rightarrow> engine" where
  "reset_run e =
     e\<lparr>db_manager := clear_data (db_manager e), cash := initial_capital e,
       position_shares := 0, trades_executed := 0, winning_trades := 0,
       losing_trades := 0\<rparr>"

text \<open>The result of \<open>run_backtest\<close> and the engine it leaves, also when it raises.\<close>

definition run_backtest :: "engine \<Rightarrow> dataframe \<Rightarrow> (error + summary) \<times> engine" where
  "run_backtest e df =
     (let e1 = reset_run e
      in if missing_columns df \<noteq> [] then (Inl (MissingColumns (missing_columns df)), e1)
         else case backtest_loop (float64_rows df) (drop 1 (rows df)) e1 of
                Inl (err, e2) \<Rightarrow> (Inl err, e2)
              | Inr e2 \<Rightarrow> (generate_summary e2, e2))"

subsection \<open>Performance analyzer\<close>

record basic_metrics =
  m_initial_capital :: real
  m_final_portfolio_value :: real
  m_total_return :: real
  m_annualized_return :: real
  m_total_days :: nat
  m_avg_daily_return :: npfloat
  m_daily_volatility :: npfloat

text \<open>The early return of the risk metrics has no \<open>sortino_ratio\<close> key: \<open>None\<close>.\<close>

record risk_metrics =
  m_annualized_volatility :: real
  m_sharpe_ratio :: real
  m_sortino_ratio :: "npfloat option"

record trade_metrics =
  m_total_trades :: nat
  m_winning_trades :: nat
  m_losing_trades :: nat
  m_win_rate :: real
  m_avg_win :: real
  m_avg_loss :: real
  m_profit_factor :: npfloat
  m_largest_win :: real
  m_largest_loss :: real

record drawdown_metrics =
  m_max_drawdown :: real
  m_current_drawdown :: real
  m_avg_drawdown :: real

text \<open>The merged dictionary \<open>{**basic, **risk, **trade, **drawdown}\<close>; the keys are disjoint.\<close>

record metrics =
  basic :: basic_metrics
  risk :: risk_metrics
  trade :: trade_metrics
  drawdown :: drawdown_metrics

text \<open>\<open>self.metrics\<close> is \<open>{}\<close> until the first analysis has finished: \<open>None\<close>.\<close>

record analyzer =
  portfolio_df :: "snapshot list option"
  trades_df :: "trade list option"
  metrics :: "metrics option"

definition init_analyzer :: analyzer where
  "init_analyzer = \<lparr>portfolio_df = None, trades_df = None, metrics = None\<rparr>"

text \<open>
  \<open>pct_change().dropna()\<close>: the relative change from each value to the next; the first
  entry of \<open>pct_change\<close> is NaN and is dropped.
\<close>

fun pct_change_dropna :: "real list \<Rightarrow> real list" where
  "pct_change_dropna (a # b # xs) = (b - a) / a # pct_change_dropna (b # xs)"
| "pct_change_dropna _ = []"

definition np_times :: "npfloat \<Rightarrow> real \<Rightarrow> npfloat" where
  "np_times x c = (case x of Finite v \<Rightarrow> Finite (v * c) | other \<Rightarrow> other)"

text \<open>pandas \<open>mean\<close> and \<open>std\<close> (sample standard deviation, \<open>ddof = 1\<close>); NaN on too few values.\<close>

definition series_mean :: "real list \<Rightarrow> npfloat" where
  "series_mean xs = (if xs = [] then NaN else Finite (sum_list xs / real (length xs)))"

definition sample_std :: "real list \<Rightarrow> real" where
  "sample_std xs =
     (let mu = sum_list xs / real (length xs)
      in sqrt (sum_list (map (\<lambda>x. (x - mu)\<^sup>2) xs) / real (length xs - 1)))"

definition series_std :: "real list \<Rightarrow> npfloat" where
  "series_std xs = (if length xs < 2 then NaN else Finite (sample_std xs))"

text \<open>
  \<open>self.metrics.get('annualized_return', 0)\<close>: the value stored by the previous call of
  \<open>analyze_performance\<close> on this analyzer, 0 when there was none.
\<close>

definition metrics_get_annualized_return :: "analyzer \<Rightarrow> real" where
  "metrics_get_annualized_return a =
     (case metrics a of None \<Rightarrow> 0 | Some m \<Rightarrow> m_annualized_return (basic m))"

definition calculate_basic_metrics :: "analyzer \<Rightarrow> error + basic_metrics" where
  "calculate_basic_metrics a =
     (case portfolio_df a of
        None \<Rightarrow> Inl TypeError
      | Some [] \<Rightarrow> Inl IndexError
      | Some (s # ss) \<Rightarrow>
          let vals = map total_value (s # ss);
              initial_value = total_value s;
              final_value = last vals;
              total_return = (final_value - initial_value) / initial_value * 100;
              daily_returns = pct_change_dropna vals;
              days = length (s # ss);
              annualized_return =
                (if days > 1
                 then ((final_value / initial_value) powr (252 / real days) - 1) * 100
                 else 0)
          in Inr \<lparr>m_initial_capital = initial_value,
                  m_final_portfolio_value = final_value,
                  m_total_return = total_return,
                  m_annualized_return = annualized_return,
                  m_total_days = days,
                  m_avg_daily_return = np_times (series_mean daily_returns) 100,
                  m_daily_volatility = np_times (series_std daily_returns) 100\<rparr>)"

definition calculate_risk_metrics :: "analyzer \<Rightarrow> real \<Rightarrow> error + risk_metrics" where
  "calculate_risk_metrics a risk_free_rate =
     (case portfolio_df a of
        None \<Rightarrow> Inl TypeError
      | Some df \<Rightarrow>
          let daily_returns = pct_change_dropna (map total_value df)
          in if length daily_returns < 2
             then Inr \<lparr>m_annualized_volatility = 0, m_sharpe_ratio = 0, m_sortino_ratio = None\<rparr>
             else
               let annualized_volatility = sample_std daily_returns * sqrt 252 * 100;
                   sharpe_ratio =
                     (if annualized_volatility > 0
                      then (metrics_get_annualized_return a - risk_free_rate * 100)
                             / annualized_volatility
                      else 0);
                   negative_returns = filter (\<lambda>x. x < 0) daily_returns;
                   sortino_ratio =
                     (if length negative_returns > 0
                      then (case np_times (np_times (series_std negative_returns) (sqrt 252)) 100 of
                              Finite downside_deviation \<Rightarrow>
                                if downside_deviation > 0
                                then Finite ((metrics_get_annualized_return a
                                                - risk_free_rate * 100) / downside_deviation)
                                else Finite 0
                            | _ \<Rightarrow> Finite 0)
                      else if metrics_get_annualized_return a > risk_free_rate * 100
                           then PosInf else Finite 0)
               in Inr \<lparr>m_annualized_volatility = annualized_volatility,
                       m_sharpe_ratio = sharpe_ratio,
                       m_sortino_ratio = Some sortino_ratio\<rparr>)"

text \<open>
  The pairing loop of \<open>_calculate_trade_metrics\<close>. \<open>prev_buys\<close> are the Buy rows whose date
  is before the date of the Sell; the pair is made with the last of them.
\<close>

definition prev_buys :: "trade list \<Rightarrow> trade \<Rightarrow> trade list" where
  "prev_buys buy_trades sell_trade =
     filter (\<lambda>b. trade_date b < trade_date sell_trade) buy_trades"

definition paired_buy :: "trade list \<Rightarrow> trade \<Rightarrow> trade option" where
  "paired_buy buy_trades sell_trade =
     (if prev_buys buy_trades sell_trade = [] then None
      else Some (last (prev_buys buy_trades sell_trade)))"

fun pair_pnl :: "trade list \<Rightarrow> trade list \<Rightarrow> real list" where
  "pair_pnl buy_trades [] = []"
| "pair_pnl buy_trades (sell_trade # rest) =
     (case paired_buy buy_trades sell_trade of
        None \<Rightarrow> pair_pnl buy_trades rest
      | Some buy_trade \<Rightarrow>
          (price sell_trade - price buy_trade) * shares sell_trade # pair_pnl buy_trades rest)"

definition trade_pnl :: "trade list \<Rightarrow> real list" where
  "trade_pnl df =
     pair_pnl (filter (\<lambda>t. trade_type t = BUY) df) (filter (\<lambda>t. trade_type t = SELL) df)"

definition zero_trade_metrics :: "nat \<Rightarrow> trade_metrics" where
  "zero_trade_metrics n =
     \<lparr>m_total_trades = n, m_winning_trades = 0, m_losing_trades = 0, m_win_rate = 0,
      m_avg_win = 0, m_avg_loss = 0, m_profit_factor = Finite 0, m_largest_win = 0,
      m_largest_loss = 0\<rparr>"

definition calculate_trade_metrics :: "analyzer \<Rightarrow> error + trade_metrics" where
  "calculate_trade_metrics a =
     (case trades_df a of
        None \<Rightarrow> Inl TypeError
      | Some df \<Rightarrow>
          if df = [] then Inr (zero_trade_metrics 0)
          else
            let buy_trades = filter (\<lambda>t. trade_type t = BUY) df;
                pnl = trade_pnl df
            in if pnl = [] then Inr (zero_trade_metrics (length buy_trades))
               else
                 let winning = filter (\<lambda>x. x > 0) pnl;
                     losing = filter (\<lambda>x. x < 0) pnl;
                     total_trades = length pnl;
                     win_count = length winning;
                     loss_count = length losing
                 in Inr \<lparr>m_total_trades = total_trades,
                         m_winning_trades = win_count,
                         m_losing_trades = loss_count,
                         m_win_rate =
                           (if total_trades > 0
                            then real win_count / real total_trades * 100 else 0),
                         m_avg_win =
                           (if length winning > 0
                            then sum_list winning / real (length winning) else 0),
                         m_avg_loss =
                           (if length losing > 0
                            then \<bar>sum_list losing / real (length losing)\<bar> else 0),
                         m_profit_factor =
                           (if length losing > 0 \<and> sum_list losing \<noteq> 0
                            then Finite \<bar>sum_list winning / sum_list losing\<bar> else PosInf),
                         m_largest_win =
                           (if length winning > 0 then Max (set winning) else 0),
                         m_largest_loss =
                           (if length losing > 0 then \<bar>Min (set losing)\<bar> else 0)\<rparr>)"

text \<open>\<open>expanding().max()\<close>: the running maximum.\<close>

fun expanding_max_from :: "real \<Rightarrow> real list \<Rightarrow> real list" where
  "expanding_max_from m [] = []"
| "expanding_max_from m (x # xs) = max m x # expanding_max_from (max m x) xs"

fun expanding_max :: "real list \<Rightarrow> real list" where
  "expanding_max [] = []"
| "expanding_max (x # xs) = x # expanding_max_from x xs"

definition drawdown_series :: "real list \<Rightarrow> real list" where
  "drawdown_series vals = map (\<lambda>(v, peak). (v - peak) / peak * 100) (zip vals (expanding_max vals))"

definition calculate_drawdown_metrics :: "analyzer \<Rightarrow> error + drawdown_metrics" where
  "calculate_drawdown_metrics a =
     (case portfolio_df a of
        None \<Rightarrow> Inl TypeError
      | Some df \<Rightarrow>
          let dd = drawdown_series (map total_value df)
          in if dd = [] then Inl IndexError
             else
               let max_drawdown = Min (set dd);
                   current_drawdown = last dd;
                   negative_drawdowns = filter (\<lambda>x. x < 0) dd;
                   avg_drawdown =
                     (if length negative_drawdowns > 0
                      then sum_list negative_drawdowns / real (length negative_drawdowns)
                      else 0)
               in Inr \<lparr>m_max_drawdown = \<bar>max_drawdown\<bar>,
                       m_current_drawdown = \<bar>current_drawdown\<bar>,
                       m_avg_drawdown = \<bar>avg_drawdown\<bar>\<rparr>)"

definition perf_row_of :: "metrics \<Rightarrow> perf_row" where
  "perf_row_of m =
     \<lparr>pr_initial_capital = m_initial_capital (basic m),
      pr_final_portfolio_value = m_final_portfolio_value (basic m),
      pr_total_return = m_total_return (basic m),
      pr_total_trades = m_total_trades (trade m),
      pr_winning_trades = m_winning_trades (trade m),
      pr_losing_trades = m_losing_trades (trade m),
      pr_win_rate = m_win_rate (trade m),
      pr_max_drawdown = m_max_drawdown (drawdown m),
      pr_sharpe_ratio = m_sharpe_ratio (risk m)\<rparr>"

text \<open>
  \<open>analyze_performance\<close>: the result, the analyzer and the store it leaves. The four metric
  sets are computed before \<open>self.metrics\<close> is assigned.
\<close>

definition analyze_performance ::
  "real \<Rightarrow> analyzer \<times> database \<Rightarrow> (error + metrics) \<times> analyzer \<times> database" where
  "analyze_performance risk_free_rate adb =
     (let db = snd adb;
          a1 = (fst adb)\<lparr>portfolio_df := Some (get_portfolio_history db),
                         trades_df := Some (get_trades db)\<rparr>
      in if get_portfolio_history db = [] then (Inl NoPortfolioData, a1, db)
         else
           (case calculate_basic_metrics a1 of
              Inl err \<Rightarrow> (Inl err, a1, db)
            | Inr basic_metrics \<Rightarrow>
           (case calculate_risk_metrics a1 risk_free_rate of
              Inl err \<Rightarrow> (Inl err, a1, db)
            | Inr risk_metrics \<Rightarrow>
           (case calculate_trade_metrics a1 of
              Inl err \<Rightarrow> (Inl err, a1, db)
            | Inr trade_metrics \<Rightarrow>
           (case calculate_drawdown_metrics a1 of
              Inl err \<Rightarrow> (Inl err, a1, db)
            | Inr drawdown_metrics \<Rightarrow>
                let m = \<lparr>basic = basic_metrics, risk = risk_metrics,
                         trade = trade_metrics, drawdown = drawdown_metrics\<rparr>;
                    a2 = a1\<lparr>metrics := Some m\<rparr>
                in (Inr m, a2, log_performance_metrics (perf_row_of m) db))))))"

subsection \<open>Invariants and example data\<close>

text \<open>
  Whether the types of a list of trade records alternate, starting with the expected one.
\<close>

fun alternates_from :: "trade_type \<Rightarrow> trade list \<Rightarrow> bool" where
  "alternates_from expected [] = True"
| "alternates_from expected (t # ts) =
     (trade_type t = expected \<and> alternates_from (if expected = BUY then SELL else BUY) ts)"

text \<open>
  The same by position: Buy at the even positions, Sell at the odd ones.
\<close>

definition alternating :: "trade list \<Rightarrow> bool" where
  "alternating ts = (\<forall>i<length ts. trade_type (ts ! i) = (if even i then BUY else SELL))"

text \<open>
  The invariant behind the alternation: an open position means the last record is a Buy,
  and after a Buy there is no cash until the Sell.
\<close>

definition trade_inv :: "engine \<Rightarrow> bool" where
  "trade_inv e =
     (alternating (trades (db_manager e)) \<and>
      (position_shares e > 0 \<longrightarrow> odd (length (trades (db_manager e)))) \<and>
      (odd (length (trades (db_manager e))) \<longrightarrow> cash e = 0))"

text \<open>
  The conservation equations of a snapshot.
\<close>

definition conserved :: "snapshot \<Rightarrow> bool" where
  "conserved s =
     (total_value s = snap_cash s + shares_held s * snap_price s \<and>
      holdings_value s = shares_held s * snap_price s \<and>
      total_value s = snap_cash s + holdings_value s)"

text \<open>
  The number of Sells, in a list of alternating records, whose price is above the price of
  the Buy before them.
\<close>

fun winning_sells :: "trade list \<Rightarrow> nat" where
  "winning_sells (b # s # ts) = (if price s > price b then 1 else 0) + winning_sells ts"
| "winning_sells ts = 0"

text \<open>
  The counters agree with the store, and while a position is open \<open>entry_price\<close> is the
  price of the last record.
\<close>

definition count_inv :: "engine \<Rightarrow> bool" where
  "count_inv e =
     (trades_executed e = length (trades (db_manager e)) \<and>
      winning_trades e = winning_sells (trades (db_manager e)) \<and>
      (odd (length (trades (db_manager e))) \<longrightarrow>
         entry_price e = price (last (trades (db_manager e)))))"

text \<open>
  Whether a scalar is a numpy value.
\<close>

fun is_numpy :: "scalar \<Rightarrow> bool" where
  "is_numpy (NpFloat64 v) = True"
| "is_numpy (PyFloat v) = False"

definition all_conserved :: "engine \<Rightarrow> bool" where
  "all_conserved e = (\<forall>s \<in> set (portfolio_history (db_manager e)). conserved s)"

text \<open>
  The engine a step leaves, whether it returned or raised.
\<close>

fun state_of :: "(error \<times> engine) + engine \<Rightarrow> engine" where
  "state_of (Inl (err, e)) = e"
| "state_of (Inr e) = e"

text \<open>
  The period attempts a Buy at price 0: the engine is flat, the signal is Buy, there is
  cash and the price is 0.
\<close>

definition buy_at_zero :: "row \<Rightarrow> engine \<Rightarrow> bool" where
  "buy_at_zero r e =
     (row_price r = Some 0 \<and> \<not> position_shares e > 0 \<and> row_signal r = Some 1 \<and> 0 < cash e)"

definition run_inv :: "engine \<Rightarrow> bool" where
  "run_inv e = (trade_inv e \<and> count_inv e)"

text \<open>
  Every division recorded after the first \<open>n\<close> has a positive dividend.
\<close>

definition div_inv :: "nat \<Rightarrow> engine \<Rightarrow> bool" where
  "div_inv n e =
     (n \<le> length (evaluated_divisions e) \<and>
      (\<forall>x \<in> set (drop n (evaluated_divisions e)). 0 < fst x))"

text \<open>
  Example data. A store left by an earlier run; a series of four days with a Buy signal on
  days 10 and 11, no price on day 12 and a price above the middle band on day 13; the
  engine states of a run over it with a capital of 1000 and the default exit.
\<close>

definition ex_stale_db :: database where
  "ex_stale_db =
     \<lparr>trades = [\<lparr>trade_date = 3, trade_type = SELL, price = 7, shares = 1, cash_change = 7,
                  portfolio_value = 7\<rparr>],
      portfolio_history = [\<lparr>snap_date = 3, snap_cash = 7, holdings_value = 0, total_value = 7,
                  shares_held = 0, snap_price = 7\<rparr>],
      performance_metrics = []\<rparr>"

definition ex_row :: "date \<Rightarrow> real option \<Rightarrow> real \<Rightarrow> real option \<Rightarrow> row" where
  "ex_row d p sig mb =
     \<lparr>row_date = d, row_price = p, row_signal = Some sig,
      indicators = (\<lambda>c. if c = ''middle_band'' then mb else None)\<rparr>"

definition ex_df :: dataframe where
  "ex_df =
     \<lparr>columns = [''price'', ''middle_band'', ''signal''], float64_rows = True,
      rows = [ex_row 10 (Some 10) 1 None, ex_row 11 (Some 10) 1 None, ex_row 12 None 0 None,
              ex_row 13 (Some 15) 0 (Some 12)]\<rparr>"

definition ex_engine :: engine where
  "ex_engine = init_engine 1000 ex_stale_db None"

definition ex_state0 :: engine where
  "ex_state0 =
     \<lparr>initial_capital = 1000, cash = 1000, position_shares = 0,
      last_portfolio_value = PyFloat 1000,
      db_manager = \<lparr>trades = [], portfolio_history = [], performance_metrics = []\<rparr>,
      strategy = None, current_date = None, current_price = Some (PyFloat 0),
      current_row = None,
      trades_executed = 0, winning_trades = 0, losing_trades = 0, entry_price = 0,
      evaluated_divisions = []\<rparr>"

definition ex_buy :: trade where
  "ex_buy = \<lparr>trade_date = 11, trade_type = BUY, price = 10, shares = 100,
             cash_change = - 1000, portfolio_value = 1000\<rparr>"

definition ex_sell :: trade where
  "ex_sell = \<lparr>trade_date = 13, trade_type = SELL, price = 15, shares = 100,
              cash_change = 1500, portfolio_value = 1500\<rparr>"

definition ex_snap1 :: snapshot where
  "ex_snap1 = \<lparr>snap_date = 11, snap_cash = 0, holdings_value = 1000, total_value = 1000,
               shares_held = 100, snap_price = 10\<rparr>"

definition ex_snap2 :: snapshot where
  "ex_snap2 = \<lparr>snap_date = 13, snap_cash = 1500, holdings_value = 0, total_value = 1500,
               shares_held = 0, snap_price = 15\<rparr>"

definition ex_state1 :: engine where
  "ex_state1 =
     \<lparr>initial_capital = 1000, cash = 0, position_shares = 100,
      last_portfolio_value = NpFloat64 1000,
      db_manager = \<lparr>trades = [ex_buy], portfolio_history = [ex_snap1],
                    performance_metrics = []\<rparr>,
      strategy = None, current_date = Some 11, current_price = Some (NpFloat64 10),
      current_row = Some (ex_row 11 (Some 10) 1 None),
      trades_executed = 1, winning_trades = 0, losing_trades = 0, entry_price = 10,
      evaluated_divisions = [(1000, 10)]\<rparr>"

definition ex_state2 :: engine where
  "ex_state2 =
     ex_state1\<lparr>current_date := Some 12, current_price := None,
               current_row := Some (ex_row 12 None 0 None)\<rparr>"

definition ex_final :: engine where
  "ex_final =
     \<lparr>initial_capital = 1000, cash = 1500, position_shares = 0,
      last_portfolio_value = NpFloat64 1500,
      db_manager = \<lparr>trades = [ex_buy, ex_sell], portfolio_history = [ex_snap1, ex_snap2],
                    performance_metrics = []\<rparr>,
      strategy = None, current_date = Some 13, current_price = Some (NpFloat64 15),
      current_row = Some (ex_row 13 (Some 15) 0 (Some 12)),
      trades_executed = 2, winning_trades = 1, losing_trades = 0, entry_price = 10,
      evaluated_divisions = [(1000, 10)]\<rparr>"

definition ex_summary :: summary where
  "ex_summary =
     \<lparr>sum_initial_capital = 1000, sum_final_portfolio_value = 1500,
      sum_total_return = Finite 50, sum_total_trades = 2, sum_winning_trades = 1,
      sum_losing_trades = 0, sum_win_rate = 50, sum_profit_loss = 500\<rparr>"

text \<open>
  A series whose second record has price 0 and a Buy signal, with float64 rows or with
  rows of Python floats, and the engine the example run is left in when the Buy raises.
\<close>

definition ex_zero_price_df :: "bool \<Rightarrow> dataframe" where
  "ex_zero_price_df np =
     \<lparr>columns = [''price'', ''signal''], float64_rows = np,
      rows = [ex_row 10 (Some 10) 1 None, ex_row 11 (Some 0) 1 None]\<rparr>"

definition ex_failed :: "bool \<Rightarrow> engine" where
  "ex_failed np =
     (if np
      then ex_state0\<lparr>current_date := Some 11, current_price := Some (NpFloat64 0),
                     current_row := Some (ex_row 11 (Some 0) 1 None),
                     cash := 0, entry_price := 0, evaluated_divisions := [(1000, 0)]\<rparr>
      else ex_state0\<lparr>current_date := Some 11, current_price := Some (PyFloat 0),
                     current_row := Some (ex_row 11 (Some 0) 1 None),
                     evaluated_divisions := [(1000, 0)]\<rparr>)"

text \<open>
  Engines without capital; series with one record, with a non-numeric column, with no
  record and with no \<open>price\<close> column.
\<close>

definition ex_zero_engine :: engine where
  "ex_zero_engine = init_engine 0 ex_stale_db None"

definition ex_broke_engine :: engine where
  "ex_broke_engine = init_engine (- 5) ex_stale_db None"

definition ex_one_row_df :: dataframe where
  "ex_one_row_df =
     \<lparr>columns = [''price'', ''signal''], float64_rows = True,
      rows = [ex_row 10 (Some 10) 1 None]\<rparr>"

definition ex_object_df :: dataframe where
  "ex_object_df =
     \<lparr>columns = [''price'', ''signal'', ''note''], float64_rows = False,
      rows = [ex_row 10 (Some 10) 1 None, ex_row 11 (Some 10) 1 None]\<rparr>"

definition ex_empty_df :: dataframe where
  "ex_empty_df = \<lparr>columns = [''price'', ''signal''], float64_rows = True, rows = []\<rparr>"

definition ex_no_price_df :: dataframe where
  "ex_no_price_df =
     \<lparr>columns = [''signal''], float64_rows = True,
      rows = [ex_row 10 None 1 None, ex_row 11 None 1 None]\<rparr>"

text \<open>
  No Sell in the store has a Buy dated strictly before it.
\<close>

definition no_pair :: "database \<Rightarrow> bool" where
  "no_pair db =
     (\<forall>s \<in> set (trades db). \<forall>b \<in> set (trades db).
        trade_type s = SELL \<and> trade_type b = BUY \<longrightarrow> \<not> trade_date b < trade_date s)"

text \<open>
  The pairs \<open>(buy_trade, sell_trade)\<close> the pairing loop forms, in order, and the profit it
  computes for a pair.
\<close>

definition trade_pairs :: "trade list \<Rightarrow> (trade \<times> trade) list" where
  "trade_pairs df =
     concat (map (\<lambda>s. case paired_buy (filter (\<lambda>t. trade_type t = BUY) df) s of
                         None \<Rightarrow> []
                       | Some b \<Rightarrow> [(b, s)])
                 (filter (\<lambda>t. trade_type t = SELL) df))"

definition pair_profit :: "trade \<times> trade \<Rightarrow> real" where
  "pair_profit bs = (price (snd bs) - price (fst bs)) * shares (snd bs)"

text \<open>
  A second round trip, at a loss.
\<close>

definition ex_buy2 :: trade where
  "ex_buy2 = \<lparr>trade_date = 14, trade_type = BUY, price = 20, shares = 75,
              cash_change = - 1500, portfolio_value = 1500\<rparr>"

definition ex_sell2 :: trade where
  "ex_sell2 = \<lparr>trade_date = 16, trade_type = SELL, price = 18, shares = 75,
               cash_change = 1350, portfolio_value = 1350\<rparr>"

definition ex_trades_db :: database where
  "ex_trades_db =
     \<lparr>trades = [ex_buy, ex_sell, ex_buy2, ex_sell2], portfolio_history = [ex_snap1, ex_snap2],
      performance_metrics = []\<rparr>"

text \<open>
  A history with total values 100, 150, 200 and no trades, and the results of its first
  and second analysis at a risk-free rate of 0.02.
\<close>

definition ex_snapshot :: "date \<Rightarrow> real \<Rightarrow> snapshot" where
  "ex_snapshot d v =
     \<lparr>snap_date = d, snap_cash = v, holdings_value = 0, total_value = v, shares_held = 0,
      snap_price = 10\<rparr>"

definition bug_db :: database where
  "bug_db =
     \<lparr>trades = [],
      portfolio_history = [ex_snapshot 1 100, ex_snapshot 2 150, ex_snapshot 3 200],
      performance_metrics = []\<rparr>"

definition bug_basic :: basic_metrics where
  "bug_basic =
     \<lparr>m_initial_capital = 100, m_final_portfolio_value = 200, m_total_return = 100,
      m_annualized_return = (2 ^ 84 - 1) * 100, m_total_days = 3,
      m_avg_daily_return = Finite (125 / 3),
      m_daily_volatility = Finite (sample_std [1 / 2, 1 / 3] * 100)\<rparr>"

definition bug_drawdown :: drawdown_metrics where
  "bug_drawdown = \<lparr>m_max_drawdown = 0, m_current_drawdown = 0, m_avg_drawdown = 0\<rparr>"

definition bug_first :: metrics where
  "bug_first =
     \<lparr>basic = bug_basic,
      risk = \<lparr>m_annualized_volatility = sample_std [1 / 2, 1 / 3] * sqrt 252 * 100,
              m_sharpe_ratio = (0 - 2) / (sample_std [1 / 2, 1 / 3] * sqrt 252 * 100),
              m_sortino_ratio = Some (Finite 0)\<rparr>,
      trade = zero_trade_metrics 0,
      drawdown = bug_drawdown\<rparr>"

definition bug_second :: metrics where
  "bug_second =
     \<lparr>basic = bug_basic,
      risk = \<lparr>m_annualized_volatility = sample_std [1 / 2, 1 / 3] * sqrt 252 * 100,
              m_sharpe_ratio =
                ((2 ^ 84 - 1) * 100 - 2) / (sample_std [1 / 2, 1 / 3] * sqrt 252 * 100),
              m_sortino_ratio = Some PosInf\<rparr>,
      trade = zero_trade_metrics 0,
      drawdown = bug_drawdown\<rparr>"

text \<open>
  A store with one Buy and no Sell, and its analysis.
\<close>

definition ex_open_db :: database where
  "ex_open_db = \<lparr>trades = [ex_buy], portfolio_history = [ex_snap1], performance_metrics = []\<rparr>"

definition ex_open_metrics :: metrics where
  "ex_open_metrics =
     \<lparr>basic = \<lparr>m_initial_capital = 1000, m_final_portfolio_value = 1000, m_total_return = 0,
               m_annualized_return = 0, m_total_days = 1, m_avg_daily_return = NaN,
               m_daily_volatility = NaN\<rparr>,
      risk = \<lparr>m_annualized_volatility = 0, m_sharpe_ratio = 0, m_sortino_ratio = None\<rparr>,
      trade = zero_trade_metrics 1,
      drawdown = bug_drawdown\<rparr>"

section \<open>Properties\<close>

subsection \<open>The simulation loop, step by step\<close>

lemma process_row_nan:
  "row_price r = None \<Longrightarrow> process_row np r e = Inr (set_current np r e)"
  by (simp add: process_row_def)

lemma execute_buy_no_cash: "cash e \<le> 0 \<Longrightarrow> execute_buy e = Inr e"
  by (simp add: execute_buy_def)

lemma state_of_Inl: "x = Inl raised \<Longrightarrow> state_of x = snd raised"
  by (cases raised) simp

lemma trade_step_invariant:
  assumes "I e"
    and buy: "\<And>e. I e \<Longrightarrow> \<not> position_shares e > 0 \<Longrightarrow> I (state_of (execute_buy e))"
    and exit: "\<And>e. I e \<Longrightarrow> I (check_exit_conditions r e)"
  shows "I (state_of (trade_step r e))"
  using assms by (simp add: trade_step_def)

lemma process_row_invariant:
  assumes "I e"
    and cur: "\<And>e. I e \<Longrightarrow> I (set_current np r e)"
    and buy: "\<And>e. I e \<Longrightarrow> \<not> position_shares e > 0 \<Longrightarrow> I (state_of (execute_buy e))"
    and exit: "\<And>e. I e \<Longrightarrow> I (check_exit_conditions r e)"
    and upd: "\<And>e. I e \<Longrightarrow> I (update_portfolio_status e)"
  shows "I (state_of (process_row np r e))"
proof (cases "row_price r")
  case None
  then show ?thesis using cur[OF assms(1)] by (simp add: process_row_def)
next
  case (Some p)
  have t: "I (state_of (trade_step r (set_current np r e)))"
    using cur[OF assms(1)] buy exit by (rule trade_step_invariant)
  show ?thesis
  proof (cases "trade_step r (set_current np r e)")
    case (Inl raised)
    with t Some show ?thesis by (simp add: process_row_def)
  next
    case (Inr e2)
    with t have "I e2" by simp
    with Inr Some show ?thesis by (simp add: process_row_def upd)
  qed
qed

lemma loop_invariant:
  assumes "I e"
    and step: "\<And>r e. I e \<Longrightarrow> I (state_of (process_row np r e))"
  shows "I (state_of (backtest_loop np rs e))"
  using assms(1)
proof (induction rs arbitrary: e)
  case Nil
  then show ?case by simp
next
  case (Cons r rs)
  show ?case
  proof (cases "process_row np r e")
    case (Inl raised)
    with step[OF Cons.prems, of r] show ?thesis by simp
  next
    case (Inr e2)
    with step[OF Cons.prems, of r] have "I e2" by simp
    with Inr Cons.IH show ?thesis by simp
  qed
qed

lemma run_state:
  "missing_columns df = [] \<Longrightarrow>
   snd (run_backtest e df) =
     state_of (backtest_loop (float64_rows df) (drop 1 (rows df)) (reset_run e))"
  by (simp add: run_backtest_def Let_def split: sum.splits prod.splits)

lemma run_state_missing:
  "missing_columns df \<noteq> [] \<Longrightarrow> snd (run_backtest e df) = reset_run e"
  by (simp add: run_backtest_def Let_def)

lemma run_invariant:
  assumes "I (reset_run e)"
    and step: "\<And>np r e. I e \<Longrightarrow> I (state_of (process_row np r e))"
  shows "I (snd (run_backtest e df))"
proof (cases "missing_columns df = []")
  case True
  then show ?thesis
    using loop_invariant[of I "reset_run e", OF assms(1) step] by (simp add: run_state)
next
  case False
  then show ?thesis using assms(1) by (simp add: run_state_missing)
qed

lemma scalar_val_price [simp]: "scalar_val (price_scalar np p) = p"
  by (simp add: price_scalar_def)

lemma execute_buy_raises:
  "isl (execute_buy e) \<longleftrightarrow>
     (0 < cash e \<and> (\<exists>sp d. current_price e = Some sp \<and> scalar_val sp = 0 \<and>
                            current_date e = Some d))"
  by (auto simp: execute_buy_def Let_def split: option.splits scalar.splits)

lemma set_current_frame [simp]:
  "position_shares (set_current np r e) = position_shares e"
  "cash (set_current np r e) = cash e"
  "current_date (set_current np r e) = Some (row_date r)"
  "current_price (set_current np r e) = map_option (price_scalar np) (row_price r)"
  by (simp_all add: set_current_def)

lemma trade_step_raises:
  "isl (trade_step r e) \<longleftrightarrow>
     (\<not> position_shares e > 0 \<and> row_signal r = Some 1 \<and> isl (execute_buy e))"
  by (simp add: trade_step_def)

lemma process_row_raises: "isl (process_row np r e) \<longleftrightarrow> buy_at_zero r e"
proof (cases "row_price r")
  case None
  then show ?thesis by (simp add: process_row_def buy_at_zero_def)
next
  case (Some p)
  have "isl (process_row np r e) \<longleftrightarrow> isl (trade_step r (set_current np r e))"
    using Some by (simp add: process_row_def split: sum.splits)
  also have "\<dots> \<longleftrightarrow> (\<not> position_shares e > 0 \<and> row_signal r = Some 1 \<and> 0 < cash e \<and> p = 0)"
    using Some by (simp add: trade_step_raises execute_buy_raises)
  also have "\<dots> \<longleftrightarrow> buy_at_zero r e"
    using Some by (auto simp: buy_at_zero_def)
  finally show ?thesis .
qed

subsection \<open>Alternation of the trade records\<close>

lemma alternating_snoc:
  "alternating ts \<Longrightarrow> trade_type t = (if even (length ts) then BUY else SELL) \<Longrightarrow> alternating (ts @ [t])"
  by (auto simp: alternating_def nth_append less_Suc_eq)

lemma trade_inv_execute_buy:
  "trade_inv e \<Longrightarrow> \<not> position_shares e > 0 \<Longrightarrow> trade_inv (state_of (execute_buy e))"
  by (auto simp: trade_inv_def execute_buy_def log_trade_def Let_def alternating_snoc
           split: option.splits scalar.splits)

lemma trade_inv_execute_sell:
  "trade_inv e \<Longrightarrow> trade_inv (execute_sell e)"
  by (auto simp: trade_inv_def execute_sell_def log_trade_def Let_def alternating_snoc
           split: option.splits)

lemma trade_inv_check_exit:
  "trade_inv e \<Longrightarrow> trade_inv (check_exit_conditions r e)"
  by (simp add: check_exit_conditions_def Let_def trade_inv_execute_sell split: option.splits)

lemma trade_inv_update:
  "trade_inv e \<Longrightarrow> trade_inv (update_portfolio_status e)"
  by (auto simp: trade_inv_def update_portfolio_status_def log_portfolio_status_def Let_def
           split: option.splits)

lemma trade_inv_set_current: "trade_inv e \<Longrightarrow> trade_inv (set_current np r e)"
  by (simp add: trade_inv_def set_current_def)

lemma trade_inv_process_row:
  "trade_inv e \<Longrightarrow> trade_inv (state_of (process_row np r e))"
  by (rule process_row_invariant)
     (simp_all add: trade_inv_set_current trade_inv_execute_buy trade_inv_check_exit
        trade_inv_update)

lemma trade_inv_reset: "trade_inv (reset_run e)"
  by (simp add: trade_inv_def reset_run_def clear_data_def alternating_def)

lemma trade_inv_run: "trade_inv (snd (run_backtest e df))"
  by (rule run_invariant) (simp_all add: trade_inv_reset trade_inv_process_row)

lemma alternates_from_index:
  "alternates_from x ts \<longleftrightarrow>
     (\<forall>i<length ts. trade_type (ts ! i) =
        (if even i then x else (if x = BUY then SELL else BUY)))"
proof (induction ts arbitrary: x)
  case Nil
  then show ?case by simp
next
  case (Cons t ts)
  have "(\<forall>i<length (t # ts). trade_type ((t # ts) ! i) =
           (if even i then x else (if x = BUY then SELL else BUY))) \<longleftrightarrow>
        (trade_type t = x \<and>
         (\<forall>i<length ts. trade_type (ts ! i) =
            (if even i then (if x = BUY then SELL else BUY) else x)))"
    by (auto simp: All_less_Suc2)
  also have "\<dots> \<longleftrightarrow> alternates_from x (t # ts)"
    by (cases x) (simp_all add: Cons.IH)
  finally show ?case by simp
qed

text \<open>
  Claim C6. After any run of the engine, on any input series and from any engine state, the
  trade records in the store, in the order they were written, alternate Buy, Sell, Buy,
  Sell, ... starting with Buy: the record at an even position is a Buy, the record at an
  odd position a Sell, and two consecutive records never have the same type. So a Sell is
  never first.
\<close>

theorem trade_records_alternate:
  "alternates_from BUY (trades (db_manager (snd (run_backtest e df)))) \<and>
   (\<forall>i<length (trades (db_manager (snd (run_backtest e df)))).
      trade_type (trades (db_manager (snd (run_backtest e df))) ! i) =
        (if even i then BUY else SELL)) \<and>
   (\<forall>i. Suc i < length (trades (db_manager (snd (run_backtest e df)))) \<longrightarrow>
      trade_type (trades (db_manager (snd (run_backtest e df))) ! i) \<noteq>
        trade_type (trades (db_manager (snd (run_backtest e df))) ! Suc i))"
proof -
  let ?ts = "trades (db_manager (snd (run_backtest e df)))"
  have ix: "\<forall>i<length ?ts. trade_type (?ts ! i) = (if even i then BUY else SELL)"
    using trade_inv_run[of e df] by (simp add: trade_inv_def alternating_def)
  then have "alternates_from BUY ?ts" by (simp add: alternates_from_index)
  moreover have "\<forall>i. Suc i < length ?ts \<longrightarrow> trade_type (?ts ! i) \<noteq> trade_type (?ts ! Suc i)"
  proof (intro allI impI)
    fix i assume "Suc i < length ?ts"
    with ix have "trade_type (?ts ! i) = (if even i then BUY else SELL)"
      and "trade_type (?ts ! Suc i) = (if even (Suc i) then BUY else SELL)"
      by simp_all
    then show "trade_type (?ts ! i) \<noteq> trade_type (?ts ! Suc i)" by simp
  qed
  ultimately show ?thesis using ix by blast
qed

subsection \<open>Conservation in the snapshots\<close>

lemma history_execute_buy [simp]:
  "portfolio_history (db_manager (state_of (execute_buy e))) = portfolio_history (db_manager e)"
  by (simp add: execute_buy_def log_trade_def Let_def split: option.splits scalar.splits)

lemma history_execute_sell [simp]:
  "portfolio_history (db_manager (execute_sell e)) = portfolio_history (db_manager e)"
  by (simp add: execute_sell_def log_trade_def Let_def split: option.splits)

lemma history_check_exit [simp]:
  "portfolio_history (db_manager (check_exit_conditions r e)) = portfolio_history (db_manager e)"
  by (simp add: check_exit_conditions_def Let_def split: option.splits)

lemma cur_execute_buy [simp]:
  "current_price (state_of (execute_buy e)) = current_price e"
  "current_date (state_of (execute_buy e)) = current_date e"
  by (simp_all add: execute_buy_def log_trade_def Let_def split: option.splits scalar.splits)

lemma cur_execute_sell [simp]:
  "current_price (execute_sell e) = current_price e" "current_date (execute_sell e) = current_date e"
  by (simp_all add: execute_sell_def log_trade_def Let_def split: option.splits)

lemma cur_check_exit [simp]:
  "current_price (check_exit_conditions r e) = current_price e"
  "current_date (check_exit_conditions r e) = current_date e"
  by (simp_all add: check_exit_conditions_def Let_def split: option.splits)

lemma trade_step_frame [simp]:
  "current_price (state_of (trade_step r e)) = current_price e"
  "current_date (state_of (trade_step r e)) = current_date e"
  "portfolio_history (db_manager (state_of (trade_step r e))) = portfolio_history (db_manager e)"
  by (simp_all add: trade_step_def)

lemma history_update:
  "current_price e = Some sp \<Longrightarrow> current_date e = Some d \<Longrightarrow>
   portfolio_history (db_manager (update_portfolio_status e)) =
     filter (\<lambda>x. snap_date x \<noteq> d) (portfolio_history (db_manager e)) @
       [\<lparr>snap_date = d, snap_cash = cash e, holdings_value = position_shares e * scalar_val sp,
         total_value = cash e + position_shares e * scalar_val sp,
         shares_held = position_shares e, snap_price = scalar_val sp\<rparr>]"
  by (simp add: update_portfolio_status_def log_portfolio_status_def Let_def)

lemma process_row_Inr:
  assumes "row_price r = Some p" and "process_row np r e = Inr e'"
  obtains e2 where "trade_step r (set_current np r e) = Inr e2"
    and "e' = update_portfolio_status e2"
  using assms by (auto simp: process_row_def split: sum.splits)

lemma process_row_Inl:
  assumes "process_row np r e = Inl raised"
  shows "trade_step r (set_current np r e) = Inl raised \<and> row_price r \<noteq> None"
  using assms by (auto simp: process_row_def split: sum.splits option.splits)

lemma history_process_row:
  assumes "row_price r = Some p" and "process_row np r e = Inr e'"
  shows "\<exists>c h. portfolio_history (db_manager e') =
     filter (\<lambda>x. snap_date x \<noteq> row_date r) (portfolio_history (db_manager e)) @
       [\<lparr>snap_date = row_date r, snap_cash = c, holdings_value = h * p,
         total_value = c + h * p, shares_held = h, snap_price = p\<rparr>]"
proof -
  from assms obtain e2 where t: "trade_step r (set_current np r e) = Inr e2"
    and e': "e' = update_portfolio_status e2"
    by (rule process_row_Inr)
  have "state_of (trade_step r (set_current np r e)) = e2" using t by simp
  then have c: "current_price e2 = Some (price_scalar np p)" "current_date e2 = Some (row_date r)"
    and h: "portfolio_history (db_manager e2) = portfolio_history (db_manager e)"
    using trade_step_frame[of r "set_current np r e"] assms(1)
    by (simp_all add: set_current_def)
  show ?thesis
    unfolding e' using history_update[OF c] h by auto
qed

lemma history_process_row_Inl:
  assumes "process_row np r e = Inl (err, ef)"
  shows "portfolio_history (db_manager ef) = portfolio_history (db_manager e)"
proof -
  from process_row_Inl[OF assms] have "state_of (trade_step r (set_current np r e)) = ef"
    by simp
  then show ?thesis
    using trade_step_frame(3)[of r "set_current np r e"] by (simp add: set_current_def)
qed

lemma all_conserved_process_row:
  "all_conserved e \<Longrightarrow> all_conserved (state_of (process_row np r e))"
proof (cases "process_row np r e")
  case (Inl raised)
  obtain err ef where r: "raised = (err, ef)" by (cases raised)
  assume "all_conserved e"
  then show ?thesis
    using history_process_row_Inl[of np r e err ef] Inl r by (simp add: all_conserved_def)
next
  case (Inr e')
  assume a: "all_conserved e"
  show ?thesis
  proof (cases "row_price r")
    case None
    with Inr a show ?thesis by (auto simp: process_row_def all_conserved_def set_current_def)
  next
    case (Some p)
    from history_process_row[OF Some Inr] a Inr show ?thesis
      by (auto simp: all_conserved_def conserved_def)
  qed
qed

lemma all_conserved_reset: "all_conserved (reset_run e)"
  by (simp add: all_conserved_def reset_run_def clear_data_def)

lemma all_conserved_run: "all_conserved (snd (run_backtest e df))"
  by (rule run_invariant) (simp_all add: all_conserved_reset all_conserved_process_row)

text \<open>
  Claim C7. Every snapshot in the store after a run satisfies \<open>total_value = cash +
  shares_held * price\<close>, with \<open>holdings_value = shares_held * price\<close> and \<open>total_value = cash +
  holdings_value\<close>. A period with a price in which no Buy is attempted at price 0 returns
  and writes a snapshot that satisfies it at the moment it is written, carries the date of
  the period and is marked at the price of the period. A period raises only when a Buy is
  attempted at price 0, and then writes no snapshot.
\<close>

theorem snapshot_conservation:
  "(s \<in> set (portfolio_history (db_manager (snd (run_backtest e df)))) \<longrightarrow> conserved s) \<and>
   (row_price r = Some p \<and> \<not> buy_at_zero r e0 \<longrightarrow>
      (\<exists>e'. process_row np r e0 = Inr e' \<and>
         portfolio_history (db_manager e') \<noteq> [] \<and>
         conserved (last (portfolio_history (db_manager e'))) \<and>
         snap_date (last (portfolio_history (db_manager e'))) = row_date r \<and>
         snap_price (last (portfolio_history (db_manager e'))) = p)) \<and>
   (process_row np r e0 = Inl (err, ef) \<longrightarrow>
      buy_at_zero r e0 \<and>
      portfolio_history (db_manager ef) = portfolio_history (db_manager e0))"
proof -
  have one: "s \<in> set (portfolio_history (db_manager (snd (run_backtest e df)))) \<longrightarrow> conserved s"
    using all_conserved_run[of e df] by (simp add: all_conserved_def)
  have three: "process_row np r e0 = Inl (err, ef) \<longrightarrow>
      buy_at_zero r e0 \<and>
      portfolio_history (db_manager ef) = portfolio_history (db_manager e0)"
    using history_process_row_Inl[of np r e0 err ef] process_row_raises[of np r e0] by auto
  have two: "\<exists>e'. process_row np r e0 = Inr e' \<and>
      portfolio_history (db_manager e') \<noteq> [] \<and>
      conserved (last (portfolio_history (db_manager e'))) \<and>
      snap_date (last (portfolio_history (db_manager e'))) = row_date r \<and>
      snap_price (last (portfolio_history (db_manager e'))) = p"
    if a: "row_price r = Some p \<and> \<not> buy_at_zero r e0"
  proof -
    from a obtain e' where e': "process_row np r e0 = Inr e'"
      using process_row_raises[of np r e0] by (cases "process_row np r e0") auto
    with a obtain c h where "portfolio_history (db_manager e') =
       filter (\<lambda>x. snap_date x \<noteq> row_date r) (portfolio_history (db_manager e0)) @
         [\<lparr>snap_date = row_date r, snap_cash = c, holdings_value = h * p,
           total_value = c + h * p, shares_held = h, snap_price = p\<rparr>]"
      using history_process_row by blast
    with e' show ?thesis by (simp add: conserved_def)
  qed
  from one two three show ?thesis by blast
qed

subsection \<open>Skipped periods\<close>

lemma store_execute_buy_Inl:
  "execute_buy e = Inl (err, ef) \<Longrightarrow> db_manager ef = db_manager e"
  by (auto simp: execute_buy_def Let_def split: if_splits option.splits scalar.splits)

lemma store_process_row_Inl:
  assumes "process_row np r e = Inl (err, ef)"
  shows "db_manager ef = db_manager e"
proof -
  from process_row_Inl[OF assms]
  have "trade_step r (set_current np r e) = Inl (err, ef)" by simp
  then have "execute_buy (set_current np r e) = Inl (err, ef)"
    by (auto simp: trade_step_def split: if_splits)
  from store_execute_buy_Inl[OF this] show ?thesis by (simp add: set_current_def)
qed

lemma history_dates_loop:
  "backtest_loop np rs e = Inr e' \<Longrightarrow> distinct (map row_date rs) \<Longrightarrow>
   set (map snap_date (portfolio_history (db_manager e))) \<inter> set (map row_date rs) = {} \<Longrightarrow>
   map snap_date (portfolio_history (db_manager e')) =
     map snap_date (portfolio_history (db_manager e)) @
       map row_date (filter (\<lambda>r. row_price r \<noteq> None) rs)"
proof (induction rs arbitrary: e)
  case Nil
  then show ?case by simp
next
  case (Cons r rs)
  from Cons.prems(1) obtain e2 where step: "process_row np r e = Inr e2"
    and rest: "backtest_loop np rs e2 = Inr e'"
    by (auto split: sum.splits)
  have d: "distinct (map row_date rs)" using Cons.prems(2) by simp
  show ?case
  proof (cases "row_price r")
    case None
    with step have "portfolio_history (db_manager e2) = portfolio_history (db_manager e)"
      by (auto simp: process_row_def set_current_def)
    with Cons.IH[OF rest d] Cons.prems(3) None show ?thesis by simp
  next
    case (Some p)
    have fresh: "\<forall>x \<in> set (portfolio_history (db_manager e)). snap_date x \<noteq> row_date r"
      using Cons.prems(3) by fastforce
    then have keep: "filter (\<lambda>x. snap_date x \<noteq> row_date r) (portfolio_history (db_manager e)) =
        portfolio_history (db_manager e)"
      by (simp add: filter_id_conv)
    from history_process_row[OF Some step]
    have dates: "map snap_date (portfolio_history (db_manager e2)) =
        map snap_date (portfolio_history (db_manager e)) @ [row_date r]"
      by (auto simp: keep)
    have disj: "set (map snap_date (portfolio_history (db_manager e2))) \<inter>
        set (map row_date rs) = {}"
      using Cons.prems(2,3) dates by auto
    from Cons.IH[OF rest d disj] dates Some show ?thesis by simp
  qed
qed

lemma loop_completes:
  "\<forall>r \<in> set rs. row_price r \<noteq> Some 0 \<Longrightarrow> \<exists>e'. backtest_loop np rs e = Inr e'"
proof (induction rs arbitrary: e)
  case Nil
  then show ?case by simp
next
  case (Cons r rs)
  have "\<not> buy_at_zero r e" using Cons.prems by (simp add: buy_at_zero_def)
  then obtain e2 where "process_row np r e = Inr e2"
    using process_row_raises[of np r e] by (cases "process_row np r e") auto
  with Cons show ?case by simp
qed

lemma run_Inr:
  assumes "fst (run_backtest e df) = Inr s"
  shows "missing_columns df = [] \<and>
         (\<exists>e2. backtest_loop (float64_rows df) (drop 1 (rows df)) (reset_run e) = Inr e2 \<and>
               generate_summary e2 = Inr s \<and> snd (run_backtest e df) = e2)"
  using assms by (auto simp: run_backtest_def Let_def split: if_splits sum.splits prod.splits)

lemma history_dates_run:
  assumes "backtest_loop (float64_rows df) (drop 1 (rows df)) (reset_run e) = Inr e2"
    and "missing_columns df = []" and "distinct (map row_date (drop 1 (rows df)))"
  shows "map snap_date (portfolio_history (db_manager (snd (run_backtest e df)))) =
     map row_date (filter (\<lambda>r. row_price r \<noteq> None) (drop 1 (rows df)))"
proof -
  have "portfolio_history (db_manager (reset_run e)) = []"
    by (simp add: reset_run_def clear_data_def)
  with history_dates_loop[OF assms(1,3)] assms(1,2) show ?thesis
    by (simp add: run_state)
qed

lemma first_row_ignored:
  "run_backtest e (df\<lparr>rows := r # rs\<rparr>) = run_backtest e (df\<lparr>rows := r' # rs\<rparr>)"
  by (simp add: run_backtest_def missing_columns_def)

text \<open>
  Claim C8, as amended. A period whose price is NaN changes neither the portfolio (cash,
  shares, entry price), nor the counters, nor anything in the store: no trade, no snapshot.
  A period with a price writes exactly one snapshot, dated with the period (replacing a
  stored snapshot of the same date, as the store's primary key demands), unless a Buy is
  attempted in it at price 0; that period raises and leaves the store as it was. The first
  record of the series has no influence on the run at all. Over a run with distinct dates
  in which no price is 0, and over every run that returns a summary, the snapshots in the
  store correspond, in order, to the records after the first whose price is not NaN.
\<close>

theorem skipped_periods:
  "(row_price r_nan = None \<longrightarrow>
      (\<exists>e'. process_row np r_nan e_nan = Inr e' \<and>
         cash e' = cash e_nan \<and> position_shares e' = position_shares e_nan \<and>
         entry_price e' = entry_price e_nan \<and> db_manager e' = db_manager e_nan \<and>
         trades_executed e' = trades_executed e_nan \<and>
         winning_trades e' = winning_trades e_nan \<and>
         losing_trades e' = losing_trades e_nan \<and>
         last_portfolio_value e' = last_portfolio_value e_nan)) \<and>
   (row_price r_ok \<noteq> None \<and> \<not> buy_at_zero r_ok e_ok \<longrightarrow>
      (\<exists>e' s. process_row np r_ok e_ok = Inr e' \<and> snap_date s = row_date r_ok \<and>
           portfolio_history (db_manager e') =
             filter (\<lambda>x. snap_date x \<noteq> row_date r_ok) (portfolio_history (db_manager e_ok))
               @ [s])) \<and>
   (buy_at_zero r_z e_z \<longrightarrow>
      (\<exists>err ef. process_row np r_z e_z = Inl (err, ef) \<and> db_manager ef = db_manager e_z)) \<and>
   run_backtest e (df\<lparr>rows := r # rs\<rparr>) = run_backtest e (df\<lparr>rows := r' # rs\<rparr>) \<and>
   (missing_columns df = [] \<and> distinct (map row_date (drop 1 (rows df))) \<and>
    (\<forall>x \<in> set (drop 1 (rows df)). row_price x \<noteq> Some 0) \<longrightarrow>
      map snap_date (portfolio_history (db_manager (snd (run_backtest e df)))) =
        map row_date (filter (\<lambda>x. row_price x \<noteq> None) (drop 1 (rows df)))) \<and>
   (fst (run_backtest e df) = Inr s0 \<and> distinct (map row_date (drop 1 (rows df))) \<longrightarrow>
      map snap_date (portfolio_history (db_manager (snd (run_backtest e df)))) =
        map row_date (filter (\<lambda>x. row_price x \<noteq> None) (drop 1 (rows df))))"
proof -
  have one: "row_price r_nan = None \<longrightarrow>
      (\<exists>e'. process_row np r_nan e_nan = Inr e' \<and>
         cash e' = cash e_nan \<and> position_shares e' = position_shares e_nan \<and>
         entry_price e' = entry_price e_nan \<and> db_manager e' = db_manager e_nan \<and>
         trades_executed e' = trades_executed e_nan \<and>
         winning_trades e' = winning_trades e_nan \<and>
         losing_trades e' = losing_trades e_nan \<and>
         last_portfolio_value e' = last_portfolio_value e_nan)"
    by (simp add: process_row_nan set_current_def)
  have two: "\<exists>e' s. process_row np r_ok e_ok = Inr e' \<and> snap_date s = row_date r_ok \<and>
           portfolio_history (db_manager e') =
             filter (\<lambda>x. snap_date x \<noteq> row_date r_ok) (portfolio_history (db_manager e_ok))
               @ [s]"
    if a: "row_price r_ok \<noteq> None \<and> \<not> buy_at_zero r_ok e_ok"
  proof -
    from a obtain p where p: "row_price r_ok = Some p" by auto
    from a obtain e' where e': "process_row np r_ok e_ok = Inr e'"
      using process_row_raises[of np r_ok e_ok] by (cases "process_row np r_ok e_ok") auto
    from history_process_row[OF p e'] e' show ?thesis by fastforce
  qed
  have three: "\<exists>err ef. process_row np r_z e_z = Inl (err, ef) \<and> db_manager ef = db_manager e_z"
    if "buy_at_zero r_z e_z"
  proof -
    from that obtain raised where "process_row np r_z e_z = Inl raised"
      using process_row_raises[of np r_z e_z] by (cases "process_row np r_z e_z") auto
    then obtain err ef where "process_row np r_z e_z = Inl (err, ef)" by (cases raised) auto
    with store_process_row_Inl show ?thesis by blast
  qed
  have five: "map snap_date (portfolio_history (db_manager (snd (run_backtest e df)))) =
        map row_date (filter (\<lambda>x. row_price x \<noteq> None) (drop 1 (rows df)))"
    if a: "missing_columns df = [] \<and> distinct (map row_date (drop 1 (rows df))) \<and>
      (\<forall>x \<in> set (drop 1 (rows df)). row_price x \<noteq> Some 0)"
  proof -
    from a obtain e2 where
      "backtest_loop (float64_rows df) (drop 1 (rows df)) (reset_run e) = Inr e2"
      using loop_completes by blast
    from history_dates_run[OF this] a show ?thesis by simp
  qed
  have six: "map snap_date (portfolio_history (db_manager (snd (run_backtest e df)))) =
        map row_date (filter (\<lambda>x. row_price x \<noteq> None) (drop 1 (rows df)))"
    if a: "fst (run_backtest e df) = Inr s0 \<and> distinct (map row_date (drop 1 (rows df)))"
  proof -
    from a run_Inr[of e df s0] obtain e2 where m: "missing_columns df = []"
      and "backtest_loop (float64_rows df) (drop 1 (rows df)) (reset_run e) = Inr e2"
      by blast
    from history_dates_run[OF this(2) m] a show ?thesis by simp
  qed
  from one two three five six first_row_ignored show ?thesis by blast
qed

subsection \<open>Counters and the win rate of the summary\<close>

lemma winning_sells_append:
  "even (length xs) \<Longrightarrow> winning_sells (xs @ ys) = winning_sells xs + winning_sells ys"
  by (induction xs rule: winning_sells.induct) simp_all

lemma winning_sells_snoc_buy:
  "even (length ts) \<Longrightarrow> winning_sells (ts @ [b]) = winning_sells ts"
  by (simp add: winning_sells_append)

lemma winning_sells_snoc_sell:
  assumes "odd (length ts)"
  shows "winning_sells (ts @ [s]) =
     winning_sells ts + (if price s > price (last ts) then 1 else 0)"
proof -
  from assms have ne: "ts \<noteq> []" by auto
  define xs where "xs = butlast ts"
  have ts: "ts = xs @ [last ts]" using ne by (simp add: xs_def)
  have ev: "even (length xs)" using assms ne by (simp add: xs_def)
  have "winning_sells ((xs @ [last ts]) @ [s]) = winning_sells (xs @ [last ts, s])" by simp
  also have "\<dots> = winning_sells xs + (if price s > price (last ts) then 1 else 0)"
    using ev by (simp add: winning_sells_append)
  also have "winning_sells xs = winning_sells (xs @ [last ts])"
    using ev by (simp add: winning_sells_append)
  finally show ?thesis using ts by simp
qed

lemma run_inv_execute_buy:
  "run_inv e \<Longrightarrow> \<not> position_shares e > 0 \<Longrightarrow> run_inv (state_of (execute_buy e))"
  unfolding run_inv_def
  apply (rule conjI)
   apply (simp add: trade_inv_execute_buy)
  apply (auto simp: trade_inv_def count_inv_def execute_buy_def log_trade_def Let_def
         winning_sells_snoc_buy split: option.splits scalar.splits)
  done

lemma run_inv_execute_sell:
  "run_inv e \<Longrightarrow> run_inv (execute_sell e)"
  unfolding run_inv_def
  apply (rule conjI)
   apply (simp add: trade_inv_execute_sell)
  apply (auto simp: trade_inv_def count_inv_def execute_sell_def log_trade_def Let_def
         winning_sells_snoc_sell split: option.splits)
  done

lemma run_inv_check_exit: "run_inv e \<Longrightarrow> run_inv (check_exit_conditions r e)"
  by (simp add: check_exit_conditions_def Let_def run_inv_execute_sell split: option.splits)

lemma run_inv_update: "run_inv e \<Longrightarrow> run_inv (update_portfolio_status e)"
  by (auto simp: run_inv_def trade_inv_def count_inv_def update_portfolio_status_def
        log_portfolio_status_def Let_def split: option.splits)

lemma run_inv_set_current: "run_inv e \<Longrightarrow> run_inv (set_current np r e)"
  by (simp add: run_inv_def trade_inv_def count_inv_def set_current_def)

lemma run_inv_process_row: "run_inv e \<Longrightarrow> run_inv (state_of (process_row np r e))"
  by (rule process_row_invariant)
     (simp_all add: run_inv_set_current run_inv_execute_buy run_inv_check_exit run_inv_update)

lemma run_inv_reset: "run_inv (reset_run e)"
  by (simp add: run_inv_def trade_inv_def count_inv_def reset_run_def clear_data_def alternating_def)

lemma run_inv_run: "run_inv (snd (run_backtest e df))"
  by (rule run_invariant) (simp_all add: run_inv_reset run_inv_process_row)

lemma summary_fields:
  "generate_summary e = Inr s \<Longrightarrow>
   sum_total_trades s = trades_executed e \<and> sum_winning_trades s = winning_trades e \<and>
   sum_win_rate s = (if trades_executed e = 0 then 0
                     else real (winning_trades e) / real (trades_executed e) * 100)"
  by (auto simp: generate_summary_def Let_def split: sum.splits)

lemma run_summary:
  "fst (run_backtest e df) = Inr s \<Longrightarrow> generate_summary (snd (run_backtest e df)) = Inr s"
  using run_Inr[of e df s] by auto

text \<open>
  Claim C9. In the summary of a run, \<open>total_trades\<close> is the number of trade records written,
  Buys and Sells counted alike; \<open>winning_trades\<close> is the number of Sells above the price of
  their Buy; and the win rate is \<open>winning_trades / total_trades * 100\<close>, or 0 without trades.
  Hence one winning round trip (one Buy, one Sell) is reported with a win rate of 50.
\<close>

theorem summary_win_rate:
  assumes "fst (run_backtest e df) = Inr s"
  shows "sum_total_trades s = length (trades (db_manager (snd (run_backtest e df)))) \<and>
         sum_winning_trades s = winning_sells (trades (db_manager (snd (run_backtest e df)))) \<and>
         sum_win_rate s =
           (if sum_total_trades s = 0 then 0
            else real (sum_winning_trades s) / real (sum_total_trades s) * 100) \<and>
         (sum_total_trades s = 2 \<and> sum_winning_trades s = 1 \<longrightarrow> sum_win_rate s = 50)"
  using summary_fields[OF run_summary[OF assms]] run_inv_run[of e df]
  by (auto simp: run_inv_def count_inv_def)

subsection \<open>Buying without cash\<close>

lemma div_inv_execute_buy: "div_inv n e \<Longrightarrow> div_inv n (state_of (execute_buy e))"
  by (auto simp: div_inv_def execute_buy_def Let_def split: option.splits scalar.splits)

lemma div_execute_sell [simp]: "evaluated_divisions (execute_sell e) = evaluated_divisions e"
  by (simp add: execute_sell_def Let_def split: option.splits)

lemma div_check_exit [simp]:
  "evaluated_divisions (check_exit_conditions r e) = evaluated_divisions e"
  by (simp add: check_exit_conditions_def Let_def split: option.splits)

lemma div_update [simp]:
  "evaluated_divisions (update_portfolio_status e) = evaluated_divisions e"
  by (simp add: update_portfolio_status_def Let_def split: option.splits)

lemma div_inv_process_row: "div_inv n e \<Longrightarrow> div_inv n (state_of (process_row np r e))"
  by (rule process_row_invariant)
     (simp_all add: div_inv_execute_buy, simp_all add: div_inv_def set_current_def)

lemma div_inv_run:
  "div_inv (length (evaluated_divisions e)) (snd (run_backtest e df))"
proof (rule run_invariant)
  show "div_inv (length (evaluated_divisions e)) (reset_run e)"
    by (simp add: div_inv_def reset_run_def)
qed (rule div_inv_process_row)

lemma update_frame:
  "cash (update_portfolio_status e) = cash e"
  "position_shares (update_portfolio_status e) = position_shares e"
  "entry_price (update_portfolio_status e) = entry_price e"
  "trades (db_manager (update_portfolio_status e)) = trades (db_manager e)"
  "trades_executed (update_portfolio_status e) = trades_executed e"
  "initial_capital (update_portfolio_status e) = initial_capital e"
  by (simp_all add: update_portfolio_status_def log_portfolio_status_def Let_def
      split: option.splits)

lemma no_cash_trade_step:
  "cash e \<le> 0 \<Longrightarrow> position_shares e \<le> 0 \<Longrightarrow> trade_step r e = Inr e"
  by (simp add: trade_step_def execute_buy_no_cash)

lemma no_cash_process_row:
  assumes "cash e \<le> 0" "position_shares e \<le> 0"
  shows "\<exists>e'. process_row np r e = Inr e' \<and>
         cash e' = cash e \<and> position_shares e' = position_shares e \<and>
         entry_price e' = entry_price e \<and>
         trades (db_manager e') = trades (db_manager e) \<and>
         trades_executed e' = trades_executed e \<and>
         evaluated_divisions e' = evaluated_divisions e \<and>
         initial_capital e' = initial_capital e"
proof -
  have "trade_step r (set_current np r e) = Inr (set_current np r e)"
    using assms by (simp add: no_cash_trade_step)
  then show ?thesis
    by (cases "row_price r") (simp_all add: process_row_def update_frame, simp_all add: set_current_def)
qed

lemma no_cash_loop:
  "cash e \<le> 0 \<Longrightarrow> position_shares e \<le> 0 \<Longrightarrow>
   \<exists>e'. backtest_loop np rs e = Inr e' \<and>
     trades (db_manager e') = trades (db_manager e) \<and>
     trades_executed e' = trades_executed e \<and>
     evaluated_divisions e' = evaluated_divisions e \<and>
     initial_capital e' = initial_capital e"
proof (induction rs arbitrary: e)
  case Nil
  then show ?case by simp
next
  case (Cons r rs)
  from no_cash_process_row[OF Cons.prems, of np r] obtain e2 where
    s: "process_row np r e = Inr e2" and "cash e2 = cash e" "position_shares e2 = position_shares e"
    and k: "trades (db_manager e2) = trades (db_manager e)" "trades_executed e2 = trades_executed e"
      "evaluated_divisions e2 = evaluated_divisions e" "initial_capital e2 = initial_capital e"
    by blast
  then have "cash e2 \<le> 0" "position_shares e2 \<le> 0" using Cons.prems by simp_all
  from Cons.IH[OF this] s k show ?case by auto
qed

lemma no_cash_run_loop:
  assumes "initial_capital e \<le> 0"
  shows "\<exists>e'. backtest_loop np rs (reset_run e) = Inr e' \<and> trades (db_manager e') = [] \<and>
           trades_executed e' = 0 \<and> evaluated_divisions e' = evaluated_divisions e \<and>
           initial_capital e' = initial_capital e"
proof -
  have "cash (reset_run e) \<le> 0" "position_shares (reset_run e) \<le> 0"
    using assms by (simp_all add: reset_run_def)
  from no_cash_loop[OF this, of np rs] show ?thesis
    by (simp add: reset_run_def clear_data_def)
qed

lemma no_cash_run:
  assumes "initial_capital e \<le> 0"
  shows "trades (db_manager (snd (run_backtest e df))) = [] \<and>
         trades_executed (snd (run_backtest e df)) = 0 \<and>
         evaluated_divisions (snd (run_backtest e df)) = evaluated_divisions e"
proof (cases "missing_columns df = []")
  case True
  from no_cash_run_loop[OF assms, of "float64_rows df" "drop 1 (rows df)"] True
  show ?thesis by (auto simp: run_state)
next
  case False
  then show ?thesis by (simp add: run_state_missing reset_run_def clear_data_def)
qed

lemma last_value_update:
  "current_price e = Some (NpFloat64 p) \<Longrightarrow> current_date e = Some d \<Longrightarrow>
   is_numpy (last_portfolio_value (update_portfolio_status e))"
  by (simp add: update_portfolio_status_def same_kind_def Let_def)

lemma last_value_process_row:
  assumes "process_row True r e = Inr e'"
    and "is_numpy (last_portfolio_value e) \<or> row_price r \<noteq> None"
  shows "is_numpy (last_portfolio_value e')"
proof (cases "row_price r")
  case None
  with assms show ?thesis by (auto simp: process_row_def set_current_def)
next
  case (Some p)
  from process_row_Inr[OF Some assms(1)] obtain e2 where
    t: "trade_step r (set_current True r e) = Inr e2" and e': "e' = update_portfolio_status e2"
    by blast
  have "state_of (trade_step r (set_current True r e)) = e2" using t by simp
  then have "current_price e2 = Some (NpFloat64 p)" "current_date e2 = Some (row_date r)"
    using trade_step_frame[of r "set_current True r e"] Some
    by (simp_all add: price_scalar_def)
  from last_value_update[OF this] e' show ?thesis by simp
qed

lemma last_value_loop:
  "backtest_loop True rs e = Inr e' \<Longrightarrow>
   is_numpy (last_portfolio_value e) \<or> (\<exists>r \<in> set rs. row_price r \<noteq> None) \<Longrightarrow>
   is_numpy (last_portfolio_value e')"
proof (induction rs arbitrary: e)
  case Nil
  then show ?case by simp
next
  case (Cons r rs)
  from Cons.prems(1) obtain e2 where s: "process_row True r e = Inr e2"
    and rest: "backtest_loop True rs e2 = Inr e'"
    by (auto split: sum.splits)
  have "is_numpy (last_portfolio_value e2) \<or> (\<exists>r \<in> set rs. row_price r \<noteq> None)"
    using Cons.prems(2) last_value_process_row[OF s] by auto
  from Cons.IH[OF rest this] show ?case .
qed

lemma summary_ok:
  "initial_capital e \<noteq> 0 \<or> is_numpy (last_portfolio_value e) \<Longrightarrow>
   \<exists>s. generate_summary e = Inr s \<and> sum_total_trades s = trades_executed e"
  by (cases "last_portfolio_value e") (auto simp: generate_summary_def return_pct_def Let_def)

lemma no_cash_run_completes:
  assumes "initial_capital e \<le> 0" and "missing_columns df = []"
    and "initial_capital e < 0 \<or>
         (float64_rows df \<and> (\<exists>r \<in> set (drop 1 (rows df)). row_price r \<noteq> None))"
  shows "\<exists>s. fst (run_backtest e df) = Inr s \<and> sum_total_trades s = 0"
proof -
  from no_cash_run_loop[OF assms(1), of "float64_rows df" "drop 1 (rows df)"] obtain e2 where
    l: "backtest_loop (float64_rows df) (drop 1 (rows df)) (reset_run e) = Inr e2"
    and t: "trades_executed e2 = 0" and c: "initial_capital e2 = initial_capital e"
    by blast
  have "initial_capital e2 \<noteq> 0 \<or> is_numpy (last_portfolio_value e2)"
  proof (cases "initial_capital e < 0")
    case True
    with c show ?thesis by simp
  next
    case False
    with assms(3) have np: "float64_rows df"
      and pr: "\<exists>r \<in> set (drop 1 (rows df)). row_price r \<noteq> None" by auto
    from l np have "backtest_loop True (drop 1 (rows df)) (reset_run e) = Inr e2" by simp
    from last_value_loop[OF this] pr show ?thesis by blast
  qed
  from summary_ok[OF this] obtain s where "generate_summary e2 = Inr s"
    and "sum_total_trades s = trades_executed e2" by blast
  with l t assms(2) show ?thesis
    by (simp add: run_backtest_def Let_def)
qed

text \<open>
  Claim C10, as amended. \<open>_execute_buy\<close> with \<open>cash \<le> 0\<close> returns the engine unchanged. A
  period met flat with \<open>cash \<le> 0\<close> leaves cash, shares, entry price and the trade records as
  they were and evaluates no division. A run with \<open>initial_capital \<le> 0\<close> writes no trade.
  Every division \<open>cash / price\<close> a run evaluates has a positive dividend. With both columns
  present, a run with \<open>initial_capital \<le> 0\<close> returns a summary (with zero trades) if the
  capital is negative, or if the frame has float64 rows and at least one period is
  processed.
\<close>

theorem buy_without_cash:
  "(cash ea \<le> 0 \<longrightarrow> execute_buy ea = Inr ea) \<and>
   (cash eb \<le> 0 \<and> position_shares eb \<le> 0 \<longrightarrow>
      (\<exists>e'. process_row np r eb = Inr e' \<and>
         cash e' = cash eb \<and> position_shares e' = position_shares eb \<and>
         entry_price e' = entry_price eb \<and>
         trades (db_manager e') = trades (db_manager eb) \<and>
         trades_executed e' = trades_executed eb \<and>
         evaluated_divisions e' = evaluated_divisions eb)) \<and>
   (initial_capital ec \<le> 0 \<longrightarrow>
      trades (db_manager (snd (run_backtest ec dfc))) = [] \<and>
      trades_executed (snd (run_backtest ec dfc)) = 0 \<and>
      evaluated_divisions (snd (run_backtest ec dfc)) = evaluated_divisions ec) \<and>
   (\<forall>x \<in> set (drop (length (evaluated_divisions ed))
                   (evaluated_divisions (snd (run_backtest ed dfd)))). 0 < fst x) \<and>
   (initial_capital ee \<le> 0 \<and> missing_columns dfe = [] \<and>
    (initial_capital ee < 0 \<or>
     (float64_rows dfe \<and> (\<exists>r \<in> set (drop 1 (rows dfe)). row_price r \<noteq> None))) \<longrightarrow>
      (\<exists>s. fst (run_backtest ee dfe) = Inr s \<and> sum_total_trades s = 0))"
proof -
  have one: "cash ea \<le> 0 \<longrightarrow> execute_buy ea = Inr ea"
    by (simp add: execute_buy_no_cash)
  have two: "cash eb \<le> 0 \<and> position_shares eb \<le> 0 \<longrightarrow>
      (\<exists>e'. process_row np r eb = Inr e' \<and>
         cash e' = cash eb \<and> position_shares e' = position_shares eb \<and>
         entry_price e' = entry_price eb \<and>
         trades (db_manager e') = trades (db_manager eb) \<and>
         trades_executed e' = trades_executed eb \<and>
         evaluated_divisions e' = evaluated_divisions eb)"
    using no_cash_process_row[of eb np r] by blast
  have three: "initial_capital ec \<le> 0 \<longrightarrow>
      trades (db_manager (snd (run_backtest ec dfc))) = [] \<and>
      trades_executed (snd (run_backtest ec dfc)) = 0 \<and>
      evaluated_divisions (snd (run_backtest ec dfc)) = evaluated_divisions ec"
    using no_cash_run by blast
  have four: "\<forall>x \<in> set (drop (length (evaluated_divisions ed))
                   (evaluated_divisions (snd (run_backtest ed dfd)))). 0 < fst x"
    using div_inv_run[of ed dfd] by (simp add: div_inv_def)
  have five: "initial_capital ee \<le> 0 \<and> missing_columns dfe = [] \<and>
    (initial_capital ee < 0 \<or>
     (float64_rows dfe \<and> (\<exists>r \<in> set (drop 1 (rows dfe)). row_price r \<noteq> None))) \<longrightarrow>
      (\<exists>s. fst (run_backtest ee dfe) = Inr s \<and> sum_total_trades s = 0)"
    using no_cash_run_completes by blast
  from one two three four five show ?thesis by blast
qed

subsection \<open>Missing columns\<close>

lemma summary_error: "generate_summary e \<noteq> Inl (MissingColumns cs)"
  by (cases "last_portfolio_value e") (auto simp: generate_summary_def return_pct_def Let_def)

lemma execute_buy_error: "execute_buy e \<noteq> Inl (MissingColumns cs, ef)"
  by (auto simp: execute_buy_def Let_def split: option.splits scalar.splits)

lemma process_row_error: "process_row np r e \<noteq> Inl (MissingColumns cs, ef)"
  by (auto simp: process_row_def trade_step_def execute_buy_error split: option.splits sum.splits)

lemma loop_error: "backtest_loop np rs e \<noteq> Inl (MissingColumns cs, ef)"
  by (induction rs arbitrary: e) (auto simp: process_row_error split: sum.splits)

text \<open>
  Claim C3, as amended. \<open>run_backtest\<close> raises the missing-columns \<open>ValueError\<close> exactly
  when \<open>price\<close> or \<open>signal\<close> is not a column of the series; emptiness is not checked. When it
  raises, the store has been cleared and the portfolio reset (cash is the initial capital,
  no shares, the three counters 0), nothing has been written and no period has been
  processed: every other attribute of the engine is as before the call.
\<close>

theorem missing_columns_error:
  "((\<exists>cs. fst (run_backtest e df) = Inl (MissingColumns cs)) \<longleftrightarrow>
      (''price'' \<notin> set (columns df) \<or> ''signal'' \<notin> set (columns df))) \<and>
   (fst (run_backtest e df) = Inl (MissingColumns cs) \<longrightarrow>
      db_manager (snd (run_backtest e df)) = clear_data (db_manager e) \<and>
      trades (db_manager (snd (run_backtest e df))) = [] \<and>
      portfolio_history (db_manager (snd (run_backtest e df))) = [] \<and>
      performance_metrics (db_manager (snd (run_backtest e df))) = [] \<and>
      cash (snd (run_backtest e df)) = initial_capital e \<and>
      position_shares (snd (run_backtest e df)) = 0 \<and>
      trades_executed (snd (run_backtest e df)) = 0 \<and>
      winning_trades (snd (run_backtest e df)) = 0 \<and>
      losing_trades (snd (run_backtest e df)) = 0 \<and>
      entry_price (snd (run_backtest e df)) = entry_price e \<and>
      last_portfolio_value (snd (run_backtest e df)) = last_portfolio_value e \<and>
      current_date (snd (run_backtest e df)) = current_date e \<and>
      current_price (snd (run_backtest e df)) = current_price e \<and>
      current_row (snd (run_backtest e df)) = current_row e \<and>
      initial_capital (snd (run_backtest e df)) = initial_capital e \<and>
      strategy (snd (run_backtest e df)) = strategy e \<and>
      evaluated_divisions (snd (run_backtest e df)) = evaluated_divisions e)"
proof -
  have miss: "missing_columns df \<noteq> [] \<longleftrightarrow>
      (''price'' \<notin> set (columns df) \<or> ''signal'' \<notin> set (columns df))"
    by (simp add: missing_columns_def)
  have ok: "missing_columns df = [] \<Longrightarrow> fst (run_backtest e df) \<noteq> Inl (MissingColumns cs')" for cs'
    using loop_error[of "float64_rows df" "drop 1 (rows df)" "reset_run e" cs']
    by (auto simp: run_backtest_def Let_def summary_error split: sum.splits prod.splits)
  have bad: "missing_columns df \<noteq> [] \<Longrightarrow>
      run_backtest e df = (Inl (MissingColumns (missing_columns df)), reset_run e)"
    by (simp add: run_backtest_def Let_def)
  have first: "(\<exists>cs. fst (run_backtest e df) = Inl (MissingColumns cs)) \<longleftrightarrow>
      (''price'' \<notin> set (columns df) \<or> ''signal'' \<notin> set (columns df))"
    using ok bad miss by (metis fst_conv)
  have second: "fst (run_backtest e df) = Inl (MissingColumns cs) \<Longrightarrow>
      snd (run_backtest e df) = reset_run e"
    using ok bad by (metis snd_conv)
  show ?thesis
    using first second by (auto simp: reset_run_def clear_data_def)
qed

subsection \<open>The example run\<close>

lemma ex_row_sel [simp]:
  "row_date (ex_row d p sig mb) = d" "row_price (ex_row d p sig mb) = p"
  "row_signal (ex_row d p sig mb) = Some sig"
  "indicators (ex_row d p sig mb) ''middle_band'' = mb"
  by (simp_all add: ex_row_def)

lemma ex_reset: "reset_run ex_engine = ex_state0"
  by (simp add: reset_run_def ex_engine_def init_engine_def clear_data_def ex_stale_db_def
      ex_state0_def)

lemma ex_step1: "process_row True (ex_row 11 (Some 10) 1 None) ex_state0 = Inr ex_state1"
  by (simp add: process_row_def trade_step_def execute_buy_def update_portfolio_status_def
      set_current_def price_scalar_def same_kind_def
      log_trade_def log_portfolio_status_def Let_def ex_state0_def ex_state1_def ex_buy_def
      ex_snap1_def)

lemma ex_step2: "process_row True (ex_row 12 None 0 None) ex_state1 = Inr ex_state2"
  by (simp add: process_row_def set_current_def ex_state2_def)

lemma ex_step3: "process_row True (ex_row 13 (Some 15) 0 (Some 12)) ex_state2 = Inr ex_final"
  by (simp add: process_row_def trade_step_def check_exit_conditions_def execute_sell_def
      update_portfolio_status_def set_current_def price_scalar_def same_kind_def
      log_trade_def log_portfolio_status_def Let_def
      ex_state2_def ex_state1_def ex_final_def ex_sell_def ex_snap1_def ex_snap2_def)

lemma ex_step_zero:
  "process_row np (ex_row 11 (Some 0) 1 None) ex_state0 =
     Inl (if np then IntegrityError else ZeroDivisionError, ex_failed np)"
  by (simp add: process_row_def trade_step_def execute_buy_def set_current_def price_scalar_def
      Let_def ex_state0_def ex_failed_def)

lemma ex_summary_eval: "generate_summary ex_final = Inr ex_summary"
  by (simp add: generate_summary_def return_pct_def ex_final_def ex_summary_def Let_def)

lemma ex_columns: "missing_columns ex_df = []"
  by (simp add: missing_columns_def ex_df_def)

lemma ex_run: "run_backtest ex_engine ex_df = (Inr ex_summary, ex_final)"
  by (simp add: run_backtest_def ex_columns ex_reset Let_def)
     (simp add: ex_df_def ex_step1 ex_step2 ex_step3 ex_summary_eval)

lemma ex_zero_price_run:
  "run_backtest ex_engine (ex_zero_price_df np) =
     (Inl (if np then IntegrityError else ZeroDivisionError), ex_failed np)"
  by (simp add: run_backtest_def missing_columns_def ex_reset Let_def ex_zero_price_df_def
      ex_step_zero)

text \<open>
  The example run writes a Buy and then a Sell.
\<close>

theorem trade_records_alternate_witness:
  "trades (db_manager (snd (run_backtest ex_engine ex_df))) = [ex_buy, ex_sell] \<and>
   alternates_from BUY [ex_buy, ex_sell] \<and>
   trade_type ([ex_buy, ex_sell] ! 0) \<noteq> trade_type ([ex_buy, ex_sell] ! Suc 0)"
proof -
  have t: "trades (db_manager (snd (run_backtest ex_engine ex_df))) = [ex_buy, ex_sell]"
    by (simp add: ex_run ex_final_def)
  show ?thesis
    using trade_records_alternate[of ex_engine ex_df] by (simp add: t)
qed

text \<open>
  The second snapshot of the example run, the snapshot its first processed period writes,
  and the same period with price 0, which raises.
\<close>

theorem snapshot_conservation_witness:
  "ex_snap2 \<in> set (portfolio_history (db_manager (snd (run_backtest ex_engine ex_df)))) \<and>
   conserved ex_snap2 \<and>
   row_price (ex_row 11 (Some 10) 1 None) = Some 10 \<and>
   \<not> buy_at_zero (ex_row 11 (Some 10) 1 None) ex_state0 \<and>
   process_row True (ex_row 11 (Some 10) 1 None) ex_state0 = Inr ex_state1 \<and>
   conserved (last (portfolio_history (db_manager ex_state1))) \<and>
   snap_date (last (portfolio_history (db_manager ex_state1))) = 11 \<and>
   process_row True (ex_row 11 (Some 0) 1 None) ex_state0 =
     Inl (IntegrityError, ex_failed True) \<and>
   buy_at_zero (ex_row 11 (Some 0) 1 None) ex_state0 \<and>
   portfolio_history (db_manager (ex_failed True)) = portfolio_history (db_manager ex_state0)"
proof -
  note th = snapshot_conservation[where s = ex_snap2 and e = ex_engine and df = ex_df
        and r = "ex_row 11 (Some 10) 1 None" and p = 10 and np = True and ?e0.0 = ex_state0]
  note thz = snapshot_conservation[where s = ex_snap2 and e = ex_engine and df = ex_df
        and r = "ex_row 11 (Some 0) 1 None" and p = 0 and np = True and ?e0.0 = ex_state0
        and err = IntegrityError and ef = "ex_failed True"]
  have m: "ex_snap2 \<in> set (portfolio_history (db_manager (snd (run_backtest ex_engine ex_df))))"
    by (simp add: ex_run ex_final_def)
  have p: "row_price (ex_row 11 (Some 10) 1 None) = Some 10" by simp
  have b: "\<not> buy_at_zero (ex_row 11 (Some 10) 1 None) ex_state0"
    by (simp add: buy_at_zero_def)
  have z: "process_row True (ex_row 11 (Some 0) 1 None) ex_state0 =
     Inl (IntegrityError, ex_failed True)"
    using ex_step_zero[of True] by simp
  have c1: "conserved ex_snap2" using th m by blast
  have c2: "conserved (last (portfolio_history (db_manager ex_state1))) \<and>
      snap_date (last (portfolio_history (db_manager ex_state1))) = 11"
    using th p b ex_step1 by auto
  have c3: "buy_at_zero (ex_row 11 (Some 0) 1 None) ex_state0 \<and>
      portfolio_history (db_manager (ex_failed True)) = portfolio_history (db_manager ex_state0)"
    using thz z by blast
  from m p b z ex_step1 c1 c2 c3 show ?thesis by blast
qed

text \<open>
  The example run is one winning round trip: two trade records, one win, win rate 50.
\<close>

theorem summary_win_rate_witness:
  "fst (run_backtest ex_engine ex_df) = Inr ex_summary \<and>
   sum_total_trades ex_summary = 2 \<and> sum_winning_trades ex_summary = 1 \<and>
   sum_win_rate ex_summary = 50"
  using summary_win_rate[of ex_engine ex_df ex_summary]
  by (simp add: ex_run ex_summary_def)

text \<open>
  In the example run the first record (which carries a Buy signal) and the NaN record of
  day 12 leave no snapshot; days 11 and 13 leave one each. A Buy at price 0 on day 11
  would raise.
\<close>

theorem skipped_periods_witness:
  "row_price (ex_row 12 None 0 None) = None \<and>
   (\<exists>e'. process_row True (ex_row 12 None 0 None) ex_state1 = Inr e' \<and>
      cash e' = cash ex_state1 \<and> position_shares e' = position_shares ex_state1 \<and>
      db_manager e' = db_manager ex_state1) \<and>
   row_price (ex_row 11 (Some 10) 1 None) \<noteq> None \<and>
   \<not> buy_at_zero (ex_row 11 (Some 10) 1 None) ex_state0 \<and>
   (\<exists>e' s. process_row True (ex_row 11 (Some 10) 1 None) ex_state0 = Inr e' \<and>
        snap_date s = 11 \<and>
        portfolio_history (db_manager e') =
          filter (\<lambda>x. snap_date x \<noteq> 11) (portfolio_history (db_manager ex_state0)) @ [s]) \<and>
   buy_at_zero (ex_row 11 (Some 0) 1 None) ex_state0 \<and>
   (\<exists>err ef. process_row True (ex_row 11 (Some 0) 1 None) ex_state0 = Inl (err, ef) \<and>
        db_manager ef = db_manager ex_state0) \<and>
   missing_columns ex_df = [] \<and> distinct (map row_date (drop 1 (rows ex_df))) \<and>
   map row_price (drop 1 (rows ex_df)) = [Some 10, None, Some 15] \<and>
   fst (run_backtest ex_engine ex_df) = Inr ex_summary \<and>
   map snap_date (portfolio_history (db_manager (snd (run_backtest ex_engine ex_df)))) = [11, 13]"
proof -
  note th = skipped_periods[where r_nan = "ex_row 12 None 0 None" and e_nan = ex_state1
        and r_ok = "ex_row 11 (Some 10) 1 None" and e_ok = ex_state0
        and r_z = "ex_row 11 (Some 0) 1 None" and e_z = ex_state0 and np = True
        and e = ex_engine and df = ex_df and ?s0.0 = ex_summary
        and r = "ex_row 10 None 0 None" and r' = "ex_row 10 None 0 None" and rs = "[]"]
  have d: "distinct (map row_date (drop 1 (rows ex_df)))"
    and f: "map row_date (filter (\<lambda>r. row_price r \<noteq> None) (drop 1 (rows ex_df))) = [11, 13]"
    and p: "map row_price (drop 1 (rows ex_df)) = [Some 10, None, Some 15]"
    and z: "\<forall>x \<in> set (drop 1 (rows ex_df)). row_price x \<noteq> Some 0"
    by (simp_all add: ex_df_def)
  have n: "row_price (ex_row 12 None 0 None) = None"
    and k: "row_price (ex_row 11 (Some 10) 1 None) \<noteq> None" by simp_all
  have b: "\<not> buy_at_zero (ex_row 11 (Some 10) 1 None) ex_state0"
    "buy_at_zero (ex_row 11 (Some 0) 1 None) ex_state0"
    by (simp_all add: buy_at_zero_def ex_state0_def)
  have r: "fst (run_backtest ex_engine ex_df) = Inr ex_summary" by (simp add: ex_run)
  have c1: "\<exists>e'. process_row True (ex_row 12 None 0 None) ex_state1 = Inr e' \<and>
      cash e' = cash ex_state1 \<and> position_shares e' = position_shares ex_state1 \<and>
      db_manager e' = db_manager ex_state1"
    using th n by blast
  have "\<exists>e' s. process_row True (ex_row 11 (Some 10) 1 None) ex_state0 = Inr e' \<and>
        snap_date s = row_date (ex_row 11 (Some 10) 1 None) \<and>
        portfolio_history (db_manager e') =
          filter (\<lambda>x. snap_date x \<noteq> row_date (ex_row 11 (Some 10) 1 None))
            (portfolio_history (db_manager ex_state0)) @ [s]"
    using th k b(1) by blast
  then have c2: "\<exists>e' s. process_row True (ex_row 11 (Some 10) 1 None) ex_state0 = Inr e' \<and>
        snap_date s = 11 \<and>
        portfolio_history (db_manager e') =
          filter (\<lambda>x. snap_date x \<noteq> 11) (portfolio_history (db_manager ex_state0)) @ [s]"
    by simp
  have c3: "\<exists>err ef. process_row True (ex_row 11 (Some 0) 1 None) ex_state0 = Inl (err, ef) \<and>
        db_manager ef = db_manager ex_state0"
    using th b(2) by blast
  have "map snap_date (portfolio_history (db_manager (snd (run_backtest ex_engine ex_df)))) =
      map row_date (filter (\<lambda>x. row_price x \<noteq> None) (drop 1 (rows ex_df)))"
    using th r d by blast
  then have c4: "map snap_date (portfolio_history (db_manager (snd (run_backtest ex_engine ex_df))))
      = [11, 13]"
    using f by simp
  from n c1 k b c2 c3 ex_columns d p r c4 show ?thesis by blast
qed

text \<open>
  Claim C8 as stated fails: the second record of this series has a price (0) and is not
  the first, yet its period appends no snapshot. The Buy at price 0 raises
  \<open>sqlite3.IntegrityError\<close> for float64 rows and \<open>ZeroDivisionError\<close> for rows of Python
  floats, before \<open>_update_portfolio_status\<close> is reached.
\<close>

theorem skipped_periods_counterexample:
  "rows (ex_zero_price_df True) = [ex_row 10 (Some 10) 1 None, ex_row 11 (Some 0) 1 None] \<and>
   row_price (ex_row 11 (Some 0) 1 None) = Some 0 \<and>
   fst (run_backtest ex_engine (ex_zero_price_df True)) = Inl IntegrityError \<and>
   portfolio_history (db_manager (snd (run_backtest ex_engine (ex_zero_price_df True)))) = [] \<and>
   fst (run_backtest ex_engine (ex_zero_price_df False)) = Inl ZeroDivisionError \<and>
   portfolio_history (db_manager (snd (run_backtest ex_engine (ex_zero_price_df False)))) = []"
  by (simp add: ex_zero_price_run) (simp add: ex_zero_price_df_def ex_failed_def ex_state0_def)

text \<open>
  An engine with no capital meets a Buy signal; engines with negative and with zero capital
  run the example series, whose rows are float64; the example run evaluates the one
  division \<open>1000 / 10\<close>.
\<close>

theorem buy_without_cash_witness:
  "cash ex_zero_engine \<le> 0 \<and> position_shares ex_zero_engine \<le> 0 \<and>
   execute_buy ex_zero_engine = Inr ex_zero_engine \<and>
   (\<exists>e'. process_row True (ex_row 11 (Some 10) 1 None) ex_zero_engine = Inr e' \<and>
      trades (db_manager e') = trades (db_manager ex_zero_engine)) \<and>
   initial_capital ex_broke_engine < 0 \<and> missing_columns ex_df = [] \<and>
   trades (db_manager (snd (run_backtest ex_broke_engine ex_df))) = [] \<and>
   drop (length (evaluated_divisions ex_engine))
     (evaluated_divisions (snd (run_backtest ex_engine ex_df))) = [(1000, 10)] \<and>
   0 < fst (hd (drop (length (evaluated_divisions ex_engine))
                  (evaluated_divisions (snd (run_backtest ex_engine ex_df))))) \<and>
   (\<exists>s. fst (run_backtest ex_broke_engine ex_df) = Inr s \<and> sum_total_trades s = 0) \<and>
   initial_capital ex_zero_engine = 0 \<and> float64_rows ex_df \<and>
   (\<exists>s. fst (run_backtest ex_zero_engine ex_df) = Inr s \<and> sum_total_trades s = 0)"
proof -
  note th = buy_without_cash[where ea = ex_zero_engine and eb = ex_zero_engine and np = True
        and r = "ex_row 11 (Some 10) 1 None" and ec = ex_broke_engine and dfc = ex_df
        and ed = ex_engine and dfd = ex_df and ee = ex_broke_engine and dfe = ex_df]
  note th0 = buy_without_cash[where ea = ex_zero_engine and eb = ex_zero_engine and np = True
        and r = "ex_row 11 (Some 10) 1 None" and ec = ex_broke_engine and dfc = ex_df
        and ed = ex_engine and dfd = ex_df and ee = ex_zero_engine and dfe = ex_df]
  have z: "cash ex_zero_engine \<le> 0" "position_shares ex_zero_engine \<le> 0"
    "initial_capital ex_zero_engine = 0"
    by (simp_all add: ex_zero_engine_def init_engine_def)
  have b: "initial_capital ex_broke_engine < 0"
    by (simp add: ex_broke_engine_def init_engine_def)
  have fl: "float64_rows ex_df" and pr: "\<exists>r \<in> set (drop 1 (rows ex_df)). row_price r \<noteq> None"
    by (simp_all add: ex_df_def)
  have l: "length (evaluated_divisions ex_engine) = 0"
    by (simp add: ex_engine_def init_engine_def)
  have d: "drop (length (evaluated_divisions ex_engine))
      (evaluated_divisions (snd (run_backtest ex_engine ex_df))) = [(1000, 10)]"
    by (simp add: l ex_run ex_final_def)
  have c1: "execute_buy ex_zero_engine = Inr ex_zero_engine" using th z by blast
  have c2: "\<exists>e'. process_row True (ex_row 11 (Some 10) 1 None) ex_zero_engine = Inr e' \<and>
      trades (db_manager e') = trades (db_manager ex_zero_engine)"
    using th z by blast
  have c3: "trades (db_manager (snd (run_backtest ex_broke_engine ex_df))) = []"
    using th b by simp
  have c4: "0 < fst (hd (drop (length (evaluated_divisions ex_engine))
                  (evaluated_divisions (snd (run_backtest ex_engine ex_df)))))"
    using th d by simp
  have c5: "\<exists>s. fst (run_backtest ex_broke_engine ex_df) = Inr s \<and> sum_total_trades s = 0"
    using th b ex_columns by simp
  have c6: "\<exists>s. fst (run_backtest ex_zero_engine ex_df) = Inr s \<and> sum_total_trades s = 0"
    using th0 z fl pr ex_columns by simp
  from z b ex_columns d fl c1 c2 c3 c4 c5 c6 show ?thesis by blast
qed

text \<open>
  Claim C10 as stated fails: with \<open>initial_capital = 0\<close> the run ends in
  \<open>ZeroDivisionError\<close>, raised by the return percentage of the summary, on a series of one
  record (no period is processed) and on a series with a non-numeric column (the period
  is processed, the portfolio value stays a Python float).
\<close>

theorem buy_without_cash_counterexample:
  "initial_capital ex_zero_engine \<le> 0 \<and> missing_columns ex_one_row_df = [] \<and>
   fst (run_backtest ex_zero_engine ex_one_row_df) = Inl ZeroDivisionError \<and>
   missing_columns ex_object_df = [] \<and>
   map row_price (drop 1 (rows ex_object_df)) = [Some 10] \<and>
   fst (run_backtest ex_zero_engine ex_object_df) = Inl ZeroDivisionError"
  by (simp add: run_backtest_def missing_columns_def ex_one_row_df_def ex_object_df_def
      ex_zero_engine_def init_engine_def reset_run_def generate_summary_def return_pct_def
      process_row_def trade_step_def execute_buy_def update_portfolio_status_def
      set_current_def price_scalar_def same_kind_def Let_def)

text \<open>
  A series without a \<open>price\<close> column, run on an engine whose store holds earlier data.
\<close>

theorem missing_columns_error_witness:
  "''price'' \<notin> set (columns ex_no_price_df) \<and>
   fst (run_backtest ex_engine ex_no_price_df) = Inl (MissingColumns [''price'']) \<and>
   db_manager (snd (run_backtest ex_engine ex_no_price_df)) = clear_data (db_manager ex_engine) \<and>
   trades (db_manager (snd (run_backtest ex_engine ex_no_price_df))) = [] \<and>
   cash (snd (run_backtest ex_engine ex_no_price_df)) = initial_capital ex_engine \<and>
   trades_executed (snd (run_backtest ex_engine ex_no_price_df)) = 0 \<and>
   winning_trades (snd (run_backtest ex_engine ex_no_price_df)) = 0 \<and>
   losing_trades (snd (run_backtest ex_engine ex_no_price_df)) = 0"
proof -
  have c: "''price'' \<notin> set (columns ex_no_price_df)"
    by (simp add: ex_no_price_df_def)
  have r: "fst (run_backtest ex_engine ex_no_price_df) = Inl (MissingColumns [''price''])"
    by (simp add: run_backtest_def missing_columns_def ex_no_price_df_def Let_def)
  show ?thesis
    using missing_columns_error[of ex_engine ex_no_price_df "[''price'']"] r c
    by (simp add: clear_data_def)
qed

text \<open>
  Claim C3 as stated fails twice: an empty series with both columns returns a summary
  instead of raising, and a series without \<open>price\<close> raises after the stored trades have
  been deleted.
\<close>

theorem missing_columns_error_counterexample:
  "rows ex_empty_df = [] \<and>
   fst (run_backtest ex_engine ex_empty_df) =
     Inr \<lparr>sum_initial_capital = 1000, sum_final_portfolio_value = 1000,
          sum_total_return = Finite 0, sum_total_trades = 0, sum_winning_trades = 0,
          sum_losing_trades = 0, sum_win_rate = 0, sum_profit_loss = 0\<rparr> \<and>
   fst (run_backtest ex_engine ex_no_price_df) = Inl (MissingColumns [''price'']) \<and>
   trades (db_manager ex_engine) \<noteq> [] \<and>
   trades (db_manager (snd (run_backtest ex_engine ex_no_price_df))) = []"
  by (simp add: run_backtest_def missing_columns_def ex_empty_df_def ex_no_price_df_def
      ex_reset ex_state0_def generate_summary_def return_pct_def Let_def)
     (simp add: ex_engine_def init_engine_def ex_stale_db_def)

subsection \<open>Pairing of Sells with Buys\<close>

lemma sorted_le_last:
  "sorted (map f xs) \<Longrightarrow> x \<in> set xs \<Longrightarrow> f x \<le> f (last xs)"
  by (induction xs) auto

lemma paired_buy_None:
  "paired_buy buy_trades s = None \<longleftrightarrow> (\<forall>b \<in> set buy_trades. \<not> trade_date b < trade_date s)"
  by (simp add: paired_buy_def prev_buys_def filter_empty_conv)

lemma paired_buy_Some:
  assumes "sorted (map trade_date buy_trades)" and "paired_buy buy_trades s = Some b"
  shows "b \<in> set buy_trades \<and> trade_date b < trade_date s \<and>
         (\<forall>b' \<in> set buy_trades. trade_date b' < trade_date s \<longrightarrow> trade_date b' \<le> trade_date b)"
proof -
  let ?pb = "prev_buys buy_trades s"
  from assms(2) have ne: "?pb \<noteq> []" and b: "b = last ?pb"
    by (auto simp: paired_buy_def split: if_splits)
  from ne have "last ?pb \<in> set ?pb" by simp
  then have mem: "b \<in> set buy_trades \<and> trade_date b < trade_date s"
    using b by (simp add: prev_buys_def)
  have srt: "sorted (map trade_date ?pb)"
    using assms(1) by (simp add: prev_buys_def sorted_filter)
  have "trade_date b' \<le> trade_date b" if "b' \<in> set buy_trades" "trade_date b' < trade_date s" for b'
  proof -
    from that have "b' \<in> set ?pb" by (simp add: prev_buys_def)
    from sorted_le_last[OF srt this] b show ?thesis by simp
  qed
  with mem show ?thesis by blast
qed

lemma pair_pnl_pairs:
  "pair_pnl buy_trades sell_trades =
     map pair_profit
       (concat (map (\<lambda>s. case paired_buy buy_trades s of None \<Rightarrow> [] | Some b \<Rightarrow> [(b, s)])
                    sell_trades))"
  by (induction sell_trades) (simp_all add: pair_profit_def split: option.splits)

lemma trade_pnl_pairs: "trade_pnl df = map pair_profit (trade_pairs df)"
  by (simp add: trade_pnl_def trade_pairs_def pair_pnl_pairs)

lemma pairs_sells:
  "map snd (concat (map (\<lambda>s. case paired_buy buy_trades s of None \<Rightarrow> [] | Some b \<Rightarrow> [(b, s)])
                        sell_trades)) =
   filter (\<lambda>s. \<exists>b \<in> set buy_trades. trade_date b < trade_date s) sell_trades"
proof (induction sell_trades)
  case Nil
  then show ?case by simp
next
  case (Cons s rest)
  show ?case
  proof (cases "paired_buy buy_trades s")
    case None
    with Cons paired_buy_None[of buy_trades s] show ?thesis by simp
  next
    case (Some b)
    then have "\<not> (\<forall>b \<in> set buy_trades. \<not> trade_date b < trade_date s)"
      using paired_buy_None[of buy_trades s] by simp
    with Cons Some show ?thesis by simp
  qed
qed

lemma pairs_member:
  "(b, s) \<in> set (trade_pairs df) \<Longrightarrow>
   s \<in> set df \<and> trade_type s = SELL \<and>
   paired_buy (filter (\<lambda>t. trade_type t = BUY) df) s = Some b"
  by (auto simp: trade_pairs_def split: option.splits)

lemma buys_sorted:
  "sorted (map trade_date (filter (\<lambda>t. trade_type t = BUY) (get_trades db)))"
  by (simp add: get_trades_def sorted_filter sorted_sort_key)

lemma set_get_trades: "set (get_trades db) = set (trades db)"
  by (simp add: get_trades_def)

lemma pairs_latest:
  assumes "(b, s) \<in> set (trade_pairs (get_trades db))"
  shows "b \<in> set (trades db) \<and> s \<in> set (trades db) \<and> trade_type b = BUY \<and>
         trade_type s = SELL \<and> trade_date b < trade_date s \<and>
         (\<forall>b' \<in> set (trades db).
            trade_type b' = BUY \<and> trade_date b' < trade_date s \<longrightarrow> trade_date b' \<le> trade_date b)"
proof -
  from pairs_member[OF assms] have s: "s \<in> set (trades db)" "trade_type s = SELL"
    and p: "paired_buy (filter (\<lambda>t. trade_type t = BUY) (get_trades db)) s = Some b"
    by (simp_all add: set_get_trades)
  from paired_buy_Some[OF buys_sorted p] s show ?thesis
    by (auto simp: set_get_trades)
qed

lemma analyze_trade:
  "fst (analyze_performance rf (a, db)) = Inr m \<Longrightarrow>
   calculate_trade_metrics
     (a\<lparr>portfolio_df := Some (get_portfolio_history db), trades_df := Some (get_trades db)\<rparr>) =
     Inr (trade m)"
  by (auto simp: analyze_performance_def Let_def split: if_splits sum.splits)

lemma trade_metrics_of_pnl:
  assumes "calculate_trade_metrics a = Inr t" and "trades_df a = Some df" and "trade_pnl df \<noteq> []"
  shows "m_total_trades t = length (trade_pnl df) \<and>
     m_winning_trades t = length (filter (\<lambda>x. 0 < x) (trade_pnl df)) \<and>
     m_losing_trades t = length (filter (\<lambda>x. x < 0) (trade_pnl df)) \<and>
     m_win_rate t =
       real (length (filter (\<lambda>x. 0 < x) (trade_pnl df))) / real (length (trade_pnl df)) * 100 \<and>
     m_avg_win t =
       (if filter (\<lambda>x. 0 < x) (trade_pnl df) = [] then 0
        else sum_list (filter (\<lambda>x. 0 < x) (trade_pnl df)) /
               real (length (filter (\<lambda>x. 0 < x) (trade_pnl df)))) \<and>
     m_avg_loss t =
       (if filter (\<lambda>x. x < 0) (trade_pnl df) = [] then 0
        else \<bar>sum_list (filter (\<lambda>x. x < 0) (trade_pnl df)) /
               real (length (filter (\<lambda>x. x < 0) (trade_pnl df)))\<bar>) \<and>
     m_profit_factor t =
       (if filter (\<lambda>x. x < 0) (trade_pnl df) \<noteq> [] \<and>
           sum_list (filter (\<lambda>x. x < 0) (trade_pnl df)) \<noteq> 0
        then Finite \<bar>sum_list (filter (\<lambda>x. 0 < x) (trade_pnl df)) /
                      sum_list (filter (\<lambda>x. x < 0) (trade_pnl df))\<bar>
        else PosInf) \<and>
     m_largest_win t =
       (if filter (\<lambda>x. 0 < x) (trade_pnl df) = [] then 0
        else Max (set (filter (\<lambda>x. 0 < x) (trade_pnl df)))) \<and>
     m_largest_loss t =
       (if filter (\<lambda>x. x < 0) (trade_pnl df) = [] then 0
        else \<bar>Min (set (filter (\<lambda>x. x < 0) (trade_pnl df)))\<bar>)"
proof -
  from assms(3) have "df \<noteq> []" by (auto simp: trade_pnl_def)
  with assms show ?thesis
    by (auto simp: calculate_trade_metrics_def Let_def)
qed

text \<open>
  Claim C4. In an analysis, the pairs formed from the trades as the store returns them
  (ordered by date) are such that: each pair is a stored Buy and a stored Sell, the Buy
  dated strictly before the Sell, and no stored Buy dated strictly before that Sell is
  more recent; the Sells of the pairs are, in order, exactly the Sells that have a Buy
  dated strictly before them, so a Sell without one produces no pair; the list of profits
  has the entry \<open>(sell price - buy price) * sell shares\<close> for each pair; and, when there is a
  pair, the trade metrics the analysis returns are those of this list of profits.
\<close>

theorem sell_pairs_with_latest_buy:
  assumes "fst (analyze_performance rf (a, db)) = Inr m"
  shows
    "(\<forall>bs \<in> set (trade_pairs (get_trades db)).
        fst bs \<in> set (trades db) \<and> snd bs \<in> set (trades db) \<and>
        trade_type (fst bs) = BUY \<and> trade_type (snd bs) = SELL \<and>
        trade_date (fst bs) < trade_date (snd bs) \<and>
        (\<forall>b' \<in> set (trades db).
           trade_type b' = BUY \<and> trade_date b' < trade_date (snd bs) \<longrightarrow>
           trade_date b' \<le> trade_date (fst bs))) \<and>
     map snd (trade_pairs (get_trades db)) =
       filter (\<lambda>s. \<exists>b \<in> set (trades db). trade_type b = BUY \<and> trade_date b < trade_date s)
         (filter (\<lambda>t. trade_type t = SELL) (get_trades db)) \<and>
     trade_pnl (get_trades db) =
       map (\<lambda>bs. (price (snd bs) - price (fst bs)) * shares (snd bs))
         (trade_pairs (get_trades db)) \<and>
     (trade_pairs (get_trades db) \<noteq> [] \<longrightarrow>
        m_total_trades (trade m) = length (trade_pairs (get_trades db)) \<and>
        m_winning_trades (trade m) =
          length (filter (\<lambda>x. 0 < x) (trade_pnl (get_trades db))) \<and>
        m_losing_trades (trade m) =
          length (filter (\<lambda>x. x < 0) (trade_pnl (get_trades db))) \<and>
        m_win_rate (trade m) =
          real (length (filter (\<lambda>x. 0 < x) (trade_pnl (get_trades db)))) /
            real (length (trade_pairs (get_trades db))) * 100 \<and>
        m_avg_win (trade m) =
          (if filter (\<lambda>x. 0 < x) (trade_pnl (get_trades db)) = [] then 0
           else sum_list (filter (\<lambda>x. 0 < x) (trade_pnl (get_trades db))) /
                  real (length (filter (\<lambda>x. 0 < x) (trade_pnl (get_trades db))))) \<and>
        m_avg_loss (trade m) =
          (if filter (\<lambda>x. x < 0) (trade_pnl (get_trades db)) = [] then 0
           else \<bar>sum_list (filter (\<lambda>x. x < 0) (trade_pnl (get_trades db))) /
                  real (length (filter (\<lambda>x. x < 0) (trade_pnl (get_trades db))))\<bar>) \<and>
        m_profit_factor (trade m) =
          (if filter (\<lambda>x. x < 0) (trade_pnl (get_trades db)) \<noteq> [] \<and>
              sum_list (filter (\<lambda>x. x < 0) (trade_pnl (get_trades db))) \<noteq> 0
           then Finite \<bar>sum_list (filter (\<lambda>x. 0 < x) (trade_pnl (get_trades db))) /
                         sum_list (filter (\<lambda>x. x < 0) (trade_pnl (get_trades db)))\<bar>
           else PosInf) \<and>
        m_largest_win (trade m) =
          (if filter (\<lambda>x. 0 < x) (trade_pnl (get_trades db)) = [] then 0
           else Max (set (filter (\<lambda>x. 0 < x) (trade_pnl (get_trades db))))) \<and>
        m_largest_loss (trade m) =
          (if filter (\<lambda>x. x < 0) (trade_pnl (get_trades db)) = [] then 0
           else \<bar>Min (set (filter (\<lambda>x. x < 0) (trade_pnl (get_trades db))))\<bar>))"
proof -
  let ?df = "get_trades db"
  let ?a = "a\<lparr>portfolio_df := Some (get_portfolio_history db), trades_df := Some ?df\<rparr>"
  have one: "\<forall>bs \<in> set (trade_pairs ?df).
        fst bs \<in> set (trades db) \<and> snd bs \<in> set (trades db) \<and>
        trade_type (fst bs) = BUY \<and> trade_type (snd bs) = SELL \<and>
        trade_date (fst bs) < trade_date (snd bs) \<and>
        (\<forall>b' \<in> set (trades db).
           trade_type b' = BUY \<and> trade_date b' < trade_date (snd bs) \<longrightarrow>
           trade_date b' \<le> trade_date (fst bs))"
  proof
    fix bs assume "bs \<in> set (trade_pairs ?df)"
    then have "(fst bs, snd bs) \<in> set (trade_pairs ?df)" by simp
    from pairs_latest[OF this] show "fst bs \<in> set (trades db) \<and> snd bs \<in> set (trades db) \<and>
        trade_type (fst bs) = BUY \<and> trade_type (snd bs) = SELL \<and>
        trade_date (fst bs) < trade_date (snd bs) \<and>
        (\<forall>b' \<in> set (trades db).
           trade_type b' = BUY \<and> trade_date b' < trade_date (snd bs) \<longrightarrow>
           trade_date b' \<le> trade_date (fst bs))" .
  qed
  have two: "map snd (trade_pairs ?df) =
       filter (\<lambda>s. \<exists>b \<in> set (trades db). trade_type b = BUY \<and> trade_date b < trade_date s)
         (filter (\<lambda>t. trade_type t = SELL) ?df)"
    unfolding trade_pairs_def pairs_sells
    by (rule filter_cong) (auto simp: set_get_trades)
  have three: "trade_pnl ?df =
       map (\<lambda>bs. (price (snd bs) - price (fst bs)) * shares (snd bs)) (trade_pairs ?df)"
    using trade_pnl_pairs[of ?df] by (simp add: pair_profit_def[abs_def])
  have len: "length (trade_pnl ?df) = length (trade_pairs ?df)"
    by (simp add: trade_pnl_pairs)
  have four: ?thesis if ne: "trade_pairs ?df \<noteq> []"
  proof -
    from ne have "trade_pnl ?df \<noteq> []" by (simp add: trade_pnl_pairs)
    from trade_metrics_of_pnl[OF analyze_trade[OF assms] _ this] one two three len
    show ?thesis by simp
  qed
  show ?thesis
  proof (cases "trade_pairs ?df = []")
    case True
    with one two three show ?thesis by simp
  next
    case False
    then show ?thesis by (rule four)
  qed
qed

lemma length_expanding_max_from: "length (expanding_max_from m xs) = length xs"
  by (induction xs arbitrary: m) simp_all

lemma drawdown_series_empty: "drawdown_series vals = [] \<longleftrightarrow> vals = []"
  by (cases vals) (simp_all add: drawdown_series_def)

lemma analyze_succeeds:
  assumes "get_portfolio_history db \<noteq> []"
  shows "\<exists>m. fst (analyze_performance rf (a, db)) = Inr m"
proof -
  let ?a = "a\<lparr>portfolio_df := Some (get_portfolio_history db), trades_df := Some (get_trades db)\<rparr>"
  from assms obtain s ss where h: "get_portfolio_history db = s # ss"
    by (cases "get_portfolio_history db") auto
  have b: "\<exists>x. calculate_basic_metrics ?a = Inr x"
    by (simp add: calculate_basic_metrics_def h Let_def)
  have r: "\<exists>x. calculate_risk_metrics ?a rf = Inr x"
    by (simp add: calculate_risk_metrics_def Let_def)
  have t: "\<exists>x. calculate_trade_metrics ?a = Inr x"
    by (simp add: calculate_trade_metrics_def Let_def)
  have d: "\<exists>x. calculate_drawdown_metrics ?a = Inr x"
    by (simp add: calculate_drawdown_metrics_def drawdown_series_empty h Let_def)
  from b r t d assms show ?thesis
    by (auto simp: analyze_performance_def Let_def)
qed

lemma ex_trades_sorted: "get_trades ex_trades_db = [ex_buy, ex_sell, ex_buy2, ex_sell2]"
  by (simp add: get_trades_def ex_trades_db_def ex_buy_def ex_sell_def ex_buy2_def ex_sell2_def)

lemma ex_pairs:
  "trade_pairs [ex_buy, ex_sell, ex_buy2, ex_sell2] = [(ex_buy, ex_sell), (ex_buy2, ex_sell2)]"
  by (simp add: trade_pairs_def paired_buy_def prev_buys_def ex_buy_def ex_sell_def ex_buy2_def
      ex_sell2_def)

lemma ex_pnl: "trade_pnl [ex_buy, ex_sell, ex_buy2, ex_sell2] = [500, - 150]"
  by (simp add: trade_pnl_pairs ex_pairs pair_profit_def)
     (simp add: ex_buy_def ex_sell_def ex_buy2_def ex_sell2_def)

text \<open>
  Two round trips: the second Sell is paired with the second Buy, not with the older one,
  and the analysis reports two trades, one win of 500 and one loss of 150.
\<close>

theorem sell_pairs_with_latest_buy_witness:
  "trade_pairs (get_trades ex_trades_db) = [(ex_buy, ex_sell), (ex_buy2, ex_sell2)] \<and>
   trade_pnl (get_trades ex_trades_db) = [500, - 150] \<and>
   trade_date ex_buy < trade_date ex_buy2 \<and> trade_date ex_buy2 < trade_date ex_sell2 \<and>
   (\<exists>m. fst (analyze_performance (1 / 50) (init_analyzer, ex_trades_db)) = Inr m \<and>
        m_total_trades (trade m) = 2 \<and> m_winning_trades (trade m) = 1 \<and>
        m_losing_trades (trade m) = 1 \<and> m_win_rate (trade m) = 50 \<and>
        m_avg_win (trade m) = 500 \<and> m_avg_loss (trade m) = 150 \<and>
        m_profit_factor (trade m) = Finite (10 / 3) \<and>
        m_largest_win (trade m) = 500 \<and> m_largest_loss (trade m) = 150)"
proof -
  have "get_portfolio_history ex_trades_db \<noteq> []"
    by (simp add: get_portfolio_history_def ex_trades_db_def)
  then obtain m where m: "fst (analyze_performance (1 / 50) (init_analyzer, ex_trades_db)) = Inr m"
    using analyze_succeeds by blast
  have d: "trade_date ex_buy < trade_date ex_buy2" "trade_date ex_buy2 < trade_date ex_sell2"
    by (simp_all add: ex_buy_def ex_buy2_def ex_sell2_def)
  from sell_pairs_with_latest_buy[OF m]
  have "m_total_trades (trade m) = 2 \<and> m_winning_trades (trade m) = 1 \<and>
        m_losing_trades (trade m) = 1 \<and> m_win_rate (trade m) = 50 \<and>
        m_avg_win (trade m) = 500 \<and> m_avg_loss (trade m) = 150 \<and>
        m_profit_factor (trade m) = Finite (10 / 3) \<and>
        m_largest_win (trade m) = 500 \<and> m_largest_loss (trade m) = 150"
    by (simp add: ex_trades_sorted ex_pairs ex_pnl)
  with m d show ?thesis
    by (auto simp: ex_trades_sorted ex_pairs ex_pnl)
qed

subsection \<open>The analysis of a concrete history\<close>

lemma bug_history:
  "get_portfolio_history bug_db = [ex_snapshot 1 100, ex_snapshot 2 150, ex_snapshot 3 200]"
  by (simp add: get_portfolio_history_def bug_db_def ex_snapshot_def)

lemma bug_trades: "get_trades bug_db = []"
  by (simp add: get_trades_def bug_db_def)

lemma bug_std_pos: "0 < sample_std [1 / 2, 1 / 3]"
  by (simp add: sample_std_def Let_def)

lemma bug_vol_pos: "0 < sample_std [1 / 2, 1 / 3] * sqrt 252 * 100"
  using bug_std_pos by simp

lemma bug_basic_eval:
  "portfolio_df a = Some [ex_snapshot 1 100, ex_snapshot 2 150, ex_snapshot 3 200] \<Longrightarrow>
   calculate_basic_metrics a = Inr bug_basic"
  by (simp add: calculate_basic_metrics_def Let_def ex_snapshot_def series_mean_def
      series_std_def np_times_def bug_basic_def)

lemma bug_risk_eval:
  "portfolio_df a = Some [ex_snapshot 1 100, ex_snapshot 2 150, ex_snapshot 3 200] \<Longrightarrow>
   calculate_risk_metrics a (1 / 50) =
     Inr \<lparr>m_annualized_volatility = sample_std [1 / 2, 1 / 3] * sqrt 252 * 100,
          m_sharpe_ratio =
            (metrics_get_annualized_return a - 2) / (sample_std [1 / 2, 1 / 3] * sqrt 252 * 100),
          m_sortino_ratio =
            Some (if metrics_get_annualized_return a > 2 then PosInf else Finite 0)\<rparr>"
  using bug_vol_pos
  by (simp add: calculate_risk_metrics_def Let_def ex_snapshot_def)

lemma no_trades_eval: "trades_df a = Some [] \<Longrightarrow> calculate_trade_metrics a = Inr (zero_trade_metrics 0)"
  by (simp add: calculate_trade_metrics_def)

lemma bug_drawdown_eval:
  "portfolio_df a = Some [ex_snapshot 1 100, ex_snapshot 2 150, ex_snapshot 3 200] \<Longrightarrow>
   calculate_drawdown_metrics a = Inr bug_drawdown"
  by (simp add: calculate_drawdown_metrics_def drawdown_series_def Let_def ex_snapshot_def
      bug_drawdown_def)

lemma bug_first_eval:
  "analyze_performance (1 / 50) (init_analyzer, bug_db) =
     (Inr bug_first,
      \<lparr>portfolio_df = Some (get_portfolio_history bug_db), trades_df = Some [],
       metrics = Some bug_first\<rparr>,
      log_performance_metrics (perf_row_of bug_first) bug_db)"
  by (simp add: analyze_performance_def bug_history bug_trades bug_basic_eval bug_risk_eval
      no_trades_eval bug_drawdown_eval Let_def init_analyzer_def metrics_get_annualized_return_def
      bug_first_def)

lemma bug_logged:
  "get_portfolio_history (log_performance_metrics r db) = get_portfolio_history db"
  "get_trades (log_performance_metrics r db) = get_trades db"
  by (simp_all add: get_portfolio_history_def get_trades_def log_performance_metrics_def)

lemma bug_second_eval:
  "fst (analyze_performance (1 / 50) (snd (analyze_performance (1 / 50) (init_analyzer, bug_db)))) =
     Inr bug_second"
  by (simp add: bug_first_eval)
     (simp add: analyze_performance_def bug_logged bug_history bug_trades bug_basic_eval
      bug_risk_eval no_trades_eval bug_drawdown_eval Let_def metrics_get_annualized_return_def
      bug_first_def bug_second_def bug_basic_def)

subsection \<open>The Sharpe ratio of the first analysis\<close>

lemma analyze_risk:
  "fst (analyze_performance rf (a, db)) = Inr m \<Longrightarrow>
   calculate_risk_metrics
     (a\<lparr>portfolio_df := Some (get_portfolio_history db), trades_df := Some (get_trades db)\<rparr>) rf =
     Inr (risk m)"
  by (auto simp: analyze_performance_def Let_def split: if_splits sum.splits)

lemma risk_sharpe:
  assumes "calculate_risk_metrics a rf = Inr r" and "0 < m_annualized_volatility r"
  shows "m_sharpe_ratio r =
     (metrics_get_annualized_return a - rf * 100) / m_annualized_volatility r"
proof (cases "portfolio_df a")
  case None
  with assms(1) show ?thesis by (simp add: calculate_risk_metrics_def)
next
  case (Some df)
  show ?thesis
  proof (cases "length (pct_change_dropna (map total_value df)) < 2")
    case True
    with Some assms show ?thesis by (auto simp: calculate_risk_metrics_def Let_def)
  next
    case False
    with Some assms(1)
    have "m_annualized_volatility r =
        sample_std (pct_change_dropna (map total_value df)) * sqrt 252 * 100"
      and "m_sharpe_ratio r =
        (if sample_std (pct_change_dropna (map total_value df)) * sqrt 252 * 100 > 0
         then (metrics_get_annualized_return a - rf * 100) /
                (sample_std (pct_change_dropna (map total_value df)) * sqrt 252 * 100)
         else 0)"
      by (auto simp: calculate_risk_metrics_def Let_def)
    with assms(2) show ?thesis by simp
  qed
qed

text \<open>
  On the first analysis of an analyzer the Sharpe ratio is \<open>(0 - rate * 100) / volatility\<close>,
  whatever the history: the annualized return does not enter.
\<close>

lemma sharpe_of_first_analysis:
  assumes "metrics a = None" and "fst (analyze_performance rf (a, db)) = Inr m"
    and "0 < m_annualized_volatility (risk m)"
  shows "m_sharpe_ratio (risk m) = (0 - rf * 100) / m_annualized_volatility (risk m)"
proof -
  let ?a = "a\<lparr>portfolio_df := Some (get_portfolio_history db), trades_df := Some (get_trades db)\<rparr>"
  have "metrics_get_annualized_return ?a = 0"
    using assms(1) by (simp add: metrics_get_annualized_return_def)
  with risk_sharpe[OF analyze_risk[OF assms(2)] assms(3)] show ?thesis by simp
qed

subsection \<open>Trade metrics without a completed pair\<close>

lemma trade_pnl_empty_iff: "trade_pnl (get_trades db) = [] \<longleftrightarrow> no_pair db"
proof -
  have "trade_pnl (get_trades db) = [] \<longleftrightarrow>
      (\<forall>s \<in> set (filter (\<lambda>t. trade_type t = SELL) (get_trades db)).
         paired_buy (filter (\<lambda>t. trade_type t = BUY) (get_trades db)) s = None)"
    by (auto simp: trade_pnl_pairs trade_pairs_def split: option.splits)
  also have "\<dots> \<longleftrightarrow> no_pair db"
    by (auto simp: paired_buy_None set_get_trades no_pair_def)
  finally show ?thesis .
qed

lemma count_buys_sorted:
  "length (filter (\<lambda>t. trade_type t = BUY) (get_trades db)) =
   length (filter (\<lambda>t. trade_type t = BUY) (trades db))"
  by (simp add: get_trades_def filter_sort)

lemma no_pair_metrics:
  assumes "trade_pnl df = []" and "trades_df a = Some df"
  shows "calculate_trade_metrics a =
     Inr (zero_trade_metrics (length (filter (\<lambda>t. trade_type t = BUY) df)))"
  using assms by (simp add: calculate_trade_metrics_def Let_def)

text \<open>
  Claim C5, as amended. When no Sell of the stored trades has a Buy dated strictly before
  it, the trade metrics of an analysis are all zero except \<open>total_trades\<close>, which is the
  number of Buy records in the store.
\<close>

theorem no_pair_trade_metrics:
  assumes "no_pair db" and "fst (analyze_performance rf (a, db)) = Inr m"
  shows "m_total_trades (trade m) = length (filter (\<lambda>t. trade_type t = BUY) (trades db)) \<and>
         m_winning_trades (trade m) = 0 \<and> m_losing_trades (trade m) = 0 \<and>
         m_win_rate (trade m) = 0 \<and> m_avg_win (trade m) = 0 \<and> m_avg_loss (trade m) = 0 \<and>
         m_profit_factor (trade m) = Finite 0 \<and> m_largest_win (trade m) = 0 \<and>
         m_largest_loss (trade m) = 0"
proof -
  let ?a = "a\<lparr>portfolio_df := Some (get_portfolio_history db), trades_df := Some (get_trades db)\<rparr>"
  have "trade_pnl (get_trades db) = []"
    using assms(1) by (simp add: trade_pnl_empty_iff)
  then have "calculate_trade_metrics ?a =
      Inr (zero_trade_metrics (length (filter (\<lambda>t. trade_type t = BUY) (get_trades db))))"
    by (rule no_pair_metrics) simp
  with analyze_trade[OF assms(2)]
  have "trade m = zero_trade_metrics (length (filter (\<lambda>t. trade_type t = BUY) (trades db)))"
    by (simp add: count_buys_sorted)
  then show ?thesis by (simp add: zero_trade_metrics_def)
qed

lemma ex_open_eval:
  "fst (analyze_performance (1 / 50) (init_analyzer, ex_open_db)) = Inr ex_open_metrics"
  by (simp add: analyze_performance_def get_portfolio_history_def get_trades_def ex_open_db_def
      calculate_basic_metrics_def calculate_risk_metrics_def calculate_trade_metrics_def
      calculate_drawdown_metrics_def drawdown_series_def trade_pnl_def series_mean_def
      series_std_def np_times_def Let_def init_analyzer_def ex_open_metrics_def ex_snap1_def
      ex_buy_def bug_drawdown_def)

lemma ex_open_no_pair: "no_pair ex_open_db"
  by (simp add: no_pair_def ex_open_db_def ex_buy_def)

text \<open>
  A store with one open position: one Buy, no Sell.
\<close>

theorem no_pair_trade_metrics_witness:
  "no_pair ex_open_db \<and>
   fst (analyze_performance (1 / 50) (init_analyzer, ex_open_db)) = Inr ex_open_metrics \<and>
   m_total_trades (trade ex_open_metrics) =
     length (filter (\<lambda>t. trade_type t = BUY) (trades ex_open_db)) \<and>
   m_winning_trades (trade ex_open_metrics) = 0 \<and>
   m_profit_factor (trade ex_open_metrics) = Finite 0"
  using no_pair_trade_metrics[OF ex_open_no_pair ex_open_eval] ex_open_no_pair ex_open_eval
  by simp

text \<open>
  Claim C5 as stated fails: with one Buy and no Sell in the store no pair can be formed,
  and the analysis reports \<open>total_trades = 1\<close>.
\<close>

theorem no_pair_trade_metrics_counterexample:
  "no_pair ex_open_db \<and>
   fst (analyze_performance (1 / 50) (init_analyzer, ex_open_db)) = Inr ex_open_metrics \<and>
   m_total_trades (trade ex_open_metrics) = 1"
  using ex_open_no_pair ex_open_eval
  by (simp add: ex_open_metrics_def zero_trade_metrics_def)

text \<open>
  Claim C1 fails on the code. For the snapshots with total values 100, 150, 200 and a
  risk-free rate of 0.02, the first analysis of a fresh analyzer has two return
  observations, a positive volatility and the annualized return
  \<open>((200/100)^(252/3) - 1) * 100\<close>, yet its Sharpe ratio is \<open>(0 - 2) / volatility\<close>: the
  annualized return is read from \<open>self.metrics\<close>, which is still empty.
\<close>

theorem first_call_sharpe_ignores_return:
  "fst (analyze_performance (1 / 50) (init_analyzer, bug_db)) = Inr bug_first \<and>
   map total_value (get_portfolio_history bug_db) = [100, 150, 200] \<and>
   length (pct_change_dropna [100, 150, 200]) = 2 \<and>
   0 < m_annualized_volatility (risk bug_first) \<and>
   m_annualized_return (basic bug_first) = ((200 / 100) powr (252 / 3) - 1) * 100 \<and>
   m_sharpe_ratio (risk bug_first) =
     (0 - 1 / 50 * 100) / m_annualized_volatility (risk bug_first) \<and>
   m_sharpe_ratio (risk bug_first) \<noteq>
     (m_annualized_return (basic bug_first) - 1 / 50 * 100) /
       m_annualized_volatility (risk bug_first)"
proof -
  have v: "0 < m_annualized_volatility (risk bug_first)"
    using bug_vol_pos by (simp add: bug_first_def)
  have s: "m_sharpe_ratio (risk bug_first) =
      (0 - 1 / 50 * 100) / m_annualized_volatility (risk bug_first)"
    by (simp add: bug_first_def)
  have r: "m_annualized_return (basic bug_first) = ((200 / 100) powr (252 / 3) - 1) * 100"
    by (simp add: bug_first_def bug_basic_def)
  have "m_annualized_return (basic bug_first) \<noteq> 0"
    by (simp add: bug_first_def bug_basic_def)
  then have n: "m_sharpe_ratio (risk bug_first) \<noteq>
      (m_annualized_return (basic bug_first) - 1 / 50 * 100) /
        m_annualized_volatility (risk bug_first)"
    using v by (simp add: s divide_simps)
  show ?thesis
    using v s r n by (simp add: bug_first_eval bug_history ex_snapshot_def)
qed

text \<open>
  Claim C2 fails on the code. On the same store, which the first analysis leaves with the
  same snapshots and trades, the second analysis of the same analyzer returns another
  result than the first: the Sharpe ratio changes and the Sortino ratio goes from 0 to
  infinity, because the second call reads the annualized return the first one stored.
\<close>

theorem repeated_analysis_differs:
  "fst (analyze_performance (1 / 50) (init_analyzer, bug_db)) = Inr bug_first \<and>
   fst (analyze_performance (1 / 50)
          (snd (analyze_performance (1 / 50) (init_analyzer, bug_db)))) = Inr bug_second \<and>
   get_portfolio_history (snd (snd (analyze_performance (1 / 50) (init_analyzer, bug_db)))) =
     get_portfolio_history bug_db \<and>
   get_trades (snd (snd (analyze_performance (1 / 50) (init_analyzer, bug_db)))) =
     get_trades bug_db \<and>
   m_sortino_ratio (risk bug_first) = Some (Finite 0) \<and>
   m_sortino_ratio (risk bug_second) = Some PosInf \<and>
   m_sharpe_ratio (risk bug_first) \<noteq> m_sharpe_ratio (risk bug_second) \<and>
   bug_first \<noteq> bug_second"
proof -
  have so: "m_sortino_ratio (risk bug_first) = Some (Finite 0)"
           "m_sortino_ratio (risk bug_second) = Some PosInf"
    by (simp_all add: bug_first_def bug_second_def)
  then have ne: "bug_first \<noteq> bug_second" by auto
  have sh: "m_sharpe_ratio (risk bug_first) \<noteq> m_sharpe_ratio (risk bug_second)"
    using bug_std_pos by (simp add: bug_first_def bug_second_def divide_simps)
  have st: "get_portfolio_history (snd (snd (analyze_performance (1 / 50) (init_analyzer, bug_db)))) =
      get_portfolio_history bug_db"
    "get_trades (snd (snd (analyze_performance (1 / 50) (init_analyzer, bug_db)))) =
      get_trades bug_db"
    by (simp_all add: bug_first_eval bug_logged)
  show ?thesis
    using so ne sh st bug_second_eval by (simp add: bug_first_eval)
qed

end
